theory Spec2Isabelle
  imports Main "HOL-Library.Char_ord" "HOL-Library.List_Lexorder"
begin

section \<open>JavaScript values used by the feature view\<close>

text \<open>
  A property of a JavaScript object is either absent, present with a value that is not a
  function, or a function. The test \<^verbatim>\<open>typeof o.p === 'function'\<close> holds in the
  third case only.
\<close>

datatype 'f js_property = Absent | NotCallable | Callable 'f

fun is_function :: "'f js_property \<Rightarrow> bool" where
  "is_function (Callable f) = True"
| "is_function Absent = False"
| "is_function NotCallable = False"

text \<open>
  The feature id is declared \<^verbatim>\<open>number\<close> but a decoder may hand over a BigInt.
  \<^verbatim>\<open>Number(v)\<close> is the identity on a number and converts a BigInt to the nearest
  double; that rounding is the parameter \<open>of_bigint\<close>.
\<close>

datatype 'n js_numeric = JsNumber 'n | JsBigInt int

fun Number_numeric :: "(int \<Rightarrow> 'n) \<Rightarrow> 'n js_numeric \<Rightarrow> 'n" where
  "Number_numeric of_bigint (JsNumber n) = n"
| "Number_numeric of_bigint (JsBigInt i) = of_bigint i"

text \<open>Reading \<^verbatim>\<open>a[i]\<close> of an array: \<open>None\<close> stands for \<^verbatim>\<open>undefined\<close>.\<close>

fun js_index :: "'a list \<Rightarrow> nat \<Rightarrow> 'a option" where
  "js_index [] i = None"
| "js_index (a # as) 0 = Some a"
| "js_index (a # as) (Suc i) = js_index as i"

section \<open>Feature view (class Feature)\<close>

text \<open>
  A GeoJSON geometry object \<^verbatim>\<open>{ type, coordinates }\<close>. The coordinates are a
  JavaScript value; \<open>None\<close> is \<^verbatim>\<open>undefined\<close>.
\<close>

record 'c GeoJSON_geometry =
  gtype :: string
  coordinates :: "'c option"

text \<open>
  The geometry held by a feature is an object. It may carry its own \<^verbatim>\<open>loadGeometry\<close>
  and \<^verbatim>\<open>toGeoJSON\<close> methods (a self-decoding geometry); \<open>pair\<close> is the data of the
  object itself (the coordinate pair of a raw point).
\<close>

record ('t, 'r, 'c, 'p) Geometry =
  loadGeometry_prop :: "(unit \<Rightarrow> 'r) js_property"
  toGeoJSON_prop :: "('t \<Rightarrow> 't \<Rightarrow> 't \<Rightarrow> 'c GeoJSON_geometry) js_property"
  pair :: 'p

record ('n, 't, 'r, 'c, 'p, 'v) Feature =
  fid :: "'n js_numeric"
  geometry :: "('t, 'r, 'c, 'p) Geometry"
  properties :: "(string \<times> 'v) list"

text \<open>
  What \<^verbatim>\<open>loadGeometry\<close> returns: the value produced by the geometry's own method, or
  the nested array \<^verbatim>\<open>[[this.geometry]]\<close>.
\<close>

datatype ('r, 'g) loaded = Verbatim 'r | Rings "'g list list"

definition loadGeometry ::
  "('n, 't, 'r, 'c, 'p, 'v) Feature \<Rightarrow> ('r, ('t, 'r, 'c, 'p) Geometry) loaded" where
  "loadGeometry this =
     (case loadGeometry_prop (geometry this) of
        Callable own \<Rightarrow> Verbatim (own ())
      | _ \<Rightarrow> Rings [[geometry this]])"

record ('n, 'c, 'v) GeoJSON_feature =
  gj_type :: string
  gj_id :: 'n
  gj_geometry :: "'c GeoJSON_geometry"
  gj_properties :: "(string \<times> 'v) list"

text \<open>
  \<open>project\<close> is the function imported from \<^verbatim>\<open>./Projection\<close>: it takes the tile
  coordinates and an array of points and returns an array.
\<close>

definition toGeoJSON ::
  "('t \<Rightarrow> 't \<Rightarrow> 't \<Rightarrow> ('t, 'r, 'c, 'p) Geometry list \<Rightarrow> 'c list) \<Rightarrow> (int \<Rightarrow> 'n) \<Rightarrow>
   ('n, 't, 'r, 'c, 'p, 'v) Feature \<Rightarrow> 't \<Rightarrow> 't \<Rightarrow> 't \<Rightarrow> ('n, 'c, 'v) GeoJSON_feature" where
  "toGeoJSON project of_bigint this x y z =
     (let geom =
        (case toGeoJSON_prop (geometry this) of
           Callable own \<Rightarrow> own x y z
         | _ \<Rightarrow>
             (let projected = project x y z [geometry this]
              in \<lparr>gtype = ''Point'', coordinates = js_index projected 0\<rparr>))
      in \<lparr>gj_type = ''Feature'',
          gj_id = Number_numeric of_bigint (fid this),
          gj_geometry = geom,
          gj_properties = properties this\<rparr>)"

section \<open>Process effects\<close>

text \<open>
  Console output is a list of lines, each tagged with its stream: \<^verbatim>\<open>console.log\<close>
  writes to stdout, \<^verbatim>\<open>console.error\<close> and \<^verbatim>\<open>console.assert\<close> write to stderr.
  A computation ends normally with a value, by \<^verbatim>\<open>process.exit(code)\<close>, or by an
  exception that nothing catches.
\<close>

datatype out_line = Stdout string | Stderr string

datatype 'a completion = Normal 'a | Exit nat | Thrown

type_synonym 'a effect = "out_line list \<times> 'a completion"

text \<open>
  \<open>assert\<close> is imported from the \<^verbatim>\<open>console\<close> module: \<^verbatim>\<open>console.assert(value, message)\<close>
  writes \<open>Assertion failed: message\<close> to stderr when the value is false and does nothing
  else; in particular it neither throws nor exits.
\<close>

definition console_assert :: "bool \<Rightarrow> string \<Rightarrow> out_line list" where
  "console_assert v message = (if v then [] else [Stderr (''Assertion failed: '' @ message)])"

text \<open>
  A number placed in a template string is converted by \<^verbatim>\<open>ToString\<close>; for the natural
  numbers that the loop indices and counters are, that is the decimal numeral. The digits
  are produced from the last one, in front of those already there.
\<close>

definition digit_char :: "nat \<Rightarrow> char" where
  "digit_char d = char_of (of_char CHR ''0'' + d)"

function decimal_digits :: "nat \<Rightarrow> string \<Rightarrow> string" where
  "decimal_digits n later =
     (let digits = digit_char (n mod 10) # later
      in if n div 10 = 0 then digits else decimal_digits (n div 10) digits)"
  by pat_completeness auto
termination
  by (relation "measure fst") auto

declare decimal_digits.simps [simp del]

definition ToString_nat :: "nat \<Rightarrow> string" where
  "ToString_nat n = decimal_digits n []"

text \<open>\<^verbatim>\<open>s.split(sep)\<close> for a separator of one character.\<close>

fun split_char :: "char \<Rightarrow> string \<Rightarrow> string list" where
  "split_char sep [] = [[]]"
| "split_char sep (c # cs) =
     (if c = sep then [] # split_char sep cs
      else (case split_char sep cs of
              [] \<Rightarrow> [[c]]
            | w # ws \<Rightarrow> (c # w) # ws))"

text \<open>
  \<^verbatim>\<open>JSON.stringify\<close> of an array of strings. A string is written between double quotes,
  with the double quote and the backslash escaped by a backslash, the control characters
  below U+0020 written as \<^verbatim>\<open>\b \t \n \f \r\<close> or as \<^verbatim>\<open>\u00hh\<close>, and every other
  character as it is; the elements are separated by commas inside square brackets.
\<close>

definition hex_digit :: "nat \<Rightarrow> char" where
  "hex_digit n = (if n < 10 then char_of (48 + n) else char_of (87 + n))"

definition json_escape :: "char \<Rightarrow> string" where
  "json_escape c =
     (if c = CHR 0x22 then [CHR 0x5C, CHR 0x22]
      else if c = CHR 0x5C then [CHR 0x5C, CHR 0x5C]
      else if c = CHR 0x08 then [CHR 0x5C, CHR ''b'']
      else if c = CHR 0x09 then [CHR 0x5C, CHR ''t'']
      else if c = CHR 0x0A then [CHR 0x5C, CHR ''n'']
      else if c = CHR 0x0C then [CHR 0x5C, CHR ''f'']
      else if c = CHR 0x0D then [CHR 0x5C, CHR ''r'']
      else if (of_char c :: nat) < 32 then
        [CHR 0x5C, CHR ''u'', CHR ''0'', CHR ''0'',
         hex_digit (of_char c div 16), hex_digit (of_char c mod 16)]
      else [c])"

definition json_quote :: "string \<Rightarrow> string" where
  "json_quote s = CHR 0x22 # concat (map json_escape s) @ [CHR 0x22]"

fun json_elements :: "string list \<Rightarrow> string" where
  "json_elements [] = []"
| "json_elements [k] = json_quote k"
| "json_elements (k # ks) = json_quote k @ CHR '','' # json_elements ks"

definition JSON_stringify :: "string list \<Rightarrow> string" where
  "JSON_stringify ks = CHR ''['' # json_elements ks @ [CHR '']'']"

section \<open>Fixture loader (load)\<close>

text \<open>
  A loaded tile: the record returned by \<^verbatim>\<open>load\<close>. A coordinate read from an array
  position that does not exist is \<^verbatim>\<open>undefined\<close>, written \<open>None\<close>.
\<close>

record ('n, 'b, 'm) TileInput =
  tile :: string
  tile_x :: "'n option"
  tile_y :: "'n option"
  tile_z :: "'n option"
  mltTile :: 'b
  mvtTile :: 'b
  tableMeta :: 'm

datatype load_error = ENOENT string | TypeError

text \<open>
  \<open>readFileSync\<close> is the file system: \<open>None\<close> for a path that does not exist, where
  \<^verbatim>\<open>readFileSync\<close> throws. \<open>fromBinary\<close> is \<^verbatim>\<open>TileSetMetadata.fromBinary\<close> and
  \<open>Number\<close> is the conversion \<^verbatim>\<open>Number\<close> applied to a string; both are outside this
  repository's sources and are parameters.
\<close>

definition load ::
  "(string \<Rightarrow> 'b option) \<Rightarrow> ('b \<Rightarrow> 'm) \<Rightarrow> (string \<Rightarrow> 'n) \<Rightarrow> string \<Rightarrow>
   load_error + ('n, 'b, 'm) TileInput" where
  "load readFileSync fromBinary Number t =
     (case readFileSync (''../test/expected/'' @ t @ ''.mlt.meta.pbf'') of
        None \<Rightarrow> Inl (ENOENT (''../test/expected/'' @ t @ ''.mlt.meta.pbf''))
      | Some metadata \<Rightarrow>
     (case readFileSync (''../test/fixtures/'' @ t @ ''.mvt'') of
        None \<Rightarrow> Inl (ENOENT (''../test/fixtures/'' @ t @ ''.mvt''))
      | Some mvt \<Rightarrow>
     (case readFileSync (''../test/expected/'' @ t @ ''.mlt'') of
        None \<Rightarrow> Inl (ENOENT (''../test/expected/'' @ t @ ''.mlt''))
      | Some mlt \<Rightarrow>
     (case js_index (split_char CHR ''/'' t) 1 of
        None \<Rightarrow> Inl TypeError
      | Some segment \<Rightarrow>
          (let uri = map Number (split_char CHR ''-'' segment)
           in Inr \<lparr>tile = t,
                   tile_x = js_index uri 1,
                   tile_y = js_index uri 2,
                   tile_z = js_index uri 0,
                   mltTile = mlt,
                   mvtTile = mvt,
                   tableMeta = fromBinary metadata\<rparr>)))))"

section \<open>Decoded tiles\<close>

text \<open>
  Modelled from the spec: the layer and tile views returned by the two decoders (the MLT
  \<^verbatim>\<open>Layer\<close> class and the \<^verbatim>\<open>VectorTile\<close> library are not among the sources). A
  layer view is a feature count \<^verbatim>\<open>length\<close> and an indexed accessor \<^verbatim>\<open>feature(i)\<close>:
  the list of its features. A decoded tile exposes \<^verbatim>\<open>layers\<close>, an object from layer
  name to layer view: the list of its entries, each name occurring once.
\<close>

record 'f DecodedTile =
  layers :: "(string \<times> 'f list) list"

text \<open>
  A feature of the MVT side is an object of the \<^verbatim>\<open>VectorTile\<close> library; the code reads
  its \<^verbatim>\<open>properties\<close> and calls its \<^verbatim>\<open>loadGeometry\<close> and \<^verbatim>\<open>toGeoJSON\<close>.
\<close>

record ('n, 'r, 'c, 'v) VectorTileFeature =
  mvt_properties :: "(string \<times> 'v) list"
  mvt_loadGeometry :: "unit \<Rightarrow> 'r"
  mvt_toGeoJSON :: "'n option \<Rightarrow> 'n option \<Rightarrow> 'n option \<Rightarrow> ('n, 'c, 'v) GeoJSON_feature"

type_synonym ('n, 'r, 'c, 'p, 'v) MltFeature = "('n, 'n option, 'r, 'c, 'p, 'v) Feature"

type_synonym ('n, 'r, 'c, 'p) Projection =
  "'n option \<Rightarrow> 'n option \<Rightarrow> 'n option \<Rightarrow> ('n option, 'r, 'c, 'p) Geometry list \<Rightarrow> 'c list"

text \<open>\<^verbatim>\<open>Object.keys(o)\<close>: the keys of the entries of \<open>o\<close>.\<close>

definition Object_keys :: "(string \<times> 'a) list \<Rightarrow> string list" where
  "Object_keys obj = map fst obj"

text \<open>
  \<^verbatim>\<open>names.sort()\<close> with no comparator orders strings by their UTF-16 code units. A
  string is held here as its UTF-8 bytes, whose order is the order of the code points;
  the code units order the same way, except that a character beyond U+FFFF (a surrogate
  pair, lead byte F0 to F4) comes before the characters U+E000 to U+FFFF (lead bytes EE
  and EF). Ranking the bytes F0 to F4 below EE and EF, and every other byte at its own
  value, turns the order of the bytes into the order of the code units.
\<close>

definition code_unit_rank :: "char \<Rightarrow> nat" where
  "code_unit_rank c =
     (let b = of_char c
      in if 0xF0 \<le> b \<and> b \<le> 0xF4 then b - 2
         else if b = 0xEE then 0xF3
         else if b = 0xEF then 0xF4
         else b)"

definition js_sort :: "string list \<Rightarrow> string list" where
  "js_sort names = sort_key (map code_unit_rank) names"

section \<open>Equivalence validator (validate)\<close>

text \<open>
  The sorted property keys of the MLT feature, and those of the MVT feature with the
  workaround applied: \<^verbatim>\<open>splice(indexOf('id'), 1)\<close> removes the first \<open>id\<close> when
  \<^verbatim>\<open>indexOf('id')\<close> is not \<open>-1\<close>. The keys are sorted as by \<^verbatim>\<open>sort()\<close>.
\<close>

definition featureKeys :: "('n, 't, 'r, 'c, 'p, 'v) Feature \<Rightarrow> string list" where
  "featureKeys feature = js_sort (Object_keys (properties feature))"

definition mvtFeatureKeys :: "('n, 'r, 'c, 'v) VectorTileFeature \<Rightarrow> string list" where
  "mvtFeatureKeys mvtFeature =
     (let mvtSorted = js_sort (Object_keys (mvt_properties mvtFeature))
      in if ''id'' \<in> set mvtSorted then remove1 ''id'' mvtSorted else mvtSorted)"

text \<open>
  The body of the loop over \<open>i\<close>, for the features of the MLT layer from index \<open>i\<close> on.
  \<open>mvtLayer\<close> is \<open>None\<close> when the MVT tile has no layer of that name; reading a feature
  of it then throws, as does \<^verbatim>\<open>feature(i)\<close> of the library beyond the last feature.
\<close>

fun validate_features ::
  "('n, 'r, 'c, 'p) Projection \<Rightarrow> (int \<Rightarrow> 'n) \<Rightarrow> ('n, string, 'm) TileInput \<Rightarrow>
   ('n, 'r, 'c, 'v) VectorTileFeature list option \<Rightarrow> nat \<Rightarrow>
   ('n, 'r, 'c, 'p, 'v) MltFeature list \<Rightarrow> unit effect" where
  "validate_features project of_bigint input mvtLayer i [] = ([], Normal ())"
| "validate_features project of_bigint input mvtLayer i (feature # rest) =
     (case mvtLayer of
        None \<Rightarrow> ([], Thrown)
      | Some mvtFeatures \<Rightarrow>
     (case js_index mvtFeatures i of
        None \<Rightarrow> ([], Thrown)
      | Some mvtFeature \<Rightarrow>
          (let out1 = console_assert
                        (length (featureKeys feature) = length (mvtFeatureKeys mvtFeature))
                        (''Feature keys mismatch for '' @ tile input);
               featureKeysStr = JSON_stringify (featureKeys feature);
               mvtFeatureKeysStr = JSON_stringify (mvtFeatureKeys mvtFeature)
           in if featureKeysStr \<noteq> mvtFeatureKeysStr then
                (out1 @
                 [Stderr (''Validation failed for '' @ tile input @ '' '' @ ToString_nat i),
                  Stdout featureKeysStr,
                  Stdout ''  vs'',
                  Stdout mvtFeatureKeysStr],
                 Exit 1)
              else
                (let json = toGeoJSON project of_bigint feature
                              (tile_x input) (tile_y input) (tile_z input);
                     mvtJson = mvt_toGeoJSON mvtFeature
                              (tile_x input) (tile_y input) (tile_z input);
                     out2 = console_assert
                              (gtype (gj_geometry json) = gtype (gj_geometry mvtJson))
                              (''Geometry type mismatch for '' @ tile input @ '' '' @
                               ToString_nat i)
                 in (case validate_features project of_bigint input mvtLayer (Suc i) rest of
                       (out, c) \<Rightarrow> (out1 @ out2 @ out, c))))))"

text \<open>The loop over the layer names, with the counter \<open>count\<close>.\<close>

fun validate_layers ::
  "('n, 'r, 'c, 'p) Projection \<Rightarrow> (int \<Rightarrow> 'n) \<Rightarrow> ('n, string, 'm) TileInput \<Rightarrow>
   ('n, 'r, 'c, 'p, 'v) MltFeature DecodedTile \<Rightarrow> ('n, 'r, 'c, 'v) VectorTileFeature DecodedTile \<Rightarrow>
   nat \<Rightarrow> string list \<Rightarrow> nat effect" where
  "validate_layers project of_bigint input decoded mvtDecoded count [] = ([], Normal count)"
| "validate_layers project of_bigint input decoded mvtDecoded count (layerName # rest) =
     (case map_of (layers decoded) layerName of
        None \<Rightarrow> ([], Thrown)
      | Some layer \<Rightarrow>
          (let mvtLayer = map_of (layers mvtDecoded) layerName
           in (case validate_features project of_bigint input mvtLayer 0 layer of
                 (out, Normal u) \<Rightarrow>
                   (case validate_layers project of_bigint input decoded mvtDecoded
                           (Suc count) rest of
                      (out', c) \<Rightarrow> (out @ out', c))
               | (out, Exit code) \<Rightarrow> (out, Exit code)
               | (out, Thrown) \<Rightarrow> (out, Thrown))))"

text \<open>
  A decoder is an external collaborator. So that a decoder whose result changes from one
  call to the next is covered, a decoder takes the number of calls made to it before, within
  the validation of a tile or within a benchmark scenario; a decoder that is a function of its
  input ignores that number. \<open>validate\<close> calls each decoder once.
\<close>

definition validate ::
  "(nat \<Rightarrow> string \<Rightarrow> 'm \<Rightarrow> ('n, 'r, 'c, 'p, 'v) MltFeature DecodedTile) \<Rightarrow>
   (nat \<Rightarrow> string \<Rightarrow> ('n, 'r, 'c, 'v) VectorTileFeature DecodedTile) \<Rightarrow>
   ('n, 'r, 'c, 'p) Projection \<Rightarrow> (int \<Rightarrow> 'n) \<Rightarrow> ('n, string, 'm) TileInput \<Rightarrow> unit effect" where
  "validate decodeMlTile VectorTile project of_bigint input =
     (let decoded = decodeMlTile 0 (mltTile input) (tableMeta input);
          mvtDecoded = VectorTile 0 (mvtTile input);
          layerNames = js_sort (Object_keys (layers decoded))
      in (case validate_layers project of_bigint input decoded mvtDecoded 0 layerNames of
            (out, Normal count) \<Rightarrow>
              (out @ console_assert (count > 0) (''Validation count mismatch for '' @ tile input),
               Normal ())
          | (out, Exit code) \<Rightarrow> (out, Exit code)
          | (out, Thrown) \<Rightarrow> (out, Thrown)))"

text \<open>
  What one turn of the loop over the layer names does for a name: the MLT layer of that
  name is compared with the MVT layer found under the same name.
\<close>

definition validate_layer ::
  "('n, 'r, 'c, 'p) Projection \<Rightarrow> (int \<Rightarrow> 'n) \<Rightarrow> ('n, string, 'm) TileInput \<Rightarrow>
   ('n, 'r, 'c, 'p, 'v) MltFeature DecodedTile \<Rightarrow> ('n, 'r, 'c, 'v) VectorTileFeature DecodedTile \<Rightarrow>
   string \<Rightarrow> unit effect" where
  "validate_layer project of_bigint input decoded mvtDecoded name =
     (case map_of (layers decoded) name of
        None \<Rightarrow> ([], Thrown)
      | Some layer \<Rightarrow>
          validate_features project of_bigint input (map_of (layers mvtDecoded) name) 0 layer)"

section \<open>Benchmark orchestrator (runSuite)\<close>

text \<open>
  One pass visits every feature of every layer, in the sorted order of the layer names,
  applies the operation under test, drops its result and counts the feature.
\<close>

fun visit_features :: "('f \<Rightarrow> 'res) \<Rightarrow> 'f list \<Rightarrow> nat \<Rightarrow> nat" where
  "visit_features operation [] count = count"
| "visit_features operation (feature # rest) count =
     (let result = operation feature in visit_features operation rest (Suc count))"

fun visit_layers :: "('f \<Rightarrow> 'res) \<Rightarrow> 'f DecodedTile \<Rightarrow> string list \<Rightarrow> nat \<Rightarrow> nat completion" where
  "visit_layers operation decoded [] count = Normal count"
| "visit_layers operation decoded (layerName # rest) count =
     (case map_of (layers decoded) layerName of
        None \<Rightarrow> Thrown
      | Some layer \<Rightarrow>
          visit_layers operation decoded rest (visit_features operation layer count))"

definition traverse :: "('f \<Rightarrow> 'res) \<Rightarrow> 'f DecodedTile \<Rightarrow> nat completion" where
  "traverse operation decoded =
     visit_layers operation decoded (js_sort (Object_keys (layers decoded))) 0"

text \<open>The feature count of one pass over a decoded tile.\<close>

definition pass_count :: "('f \<Rightarrow> 'res) \<Rightarrow> 'f DecodedTile \<Rightarrow> nat" where
  "pass_count operation decoded =
     (case traverse operation decoded of Normal count \<Rightarrow> count | Exit code \<Rightarrow> 0 | Thrown \<Rightarrow> 0)"

text \<open>
  The variable \<open>opts\<close> of a scenario is \<^verbatim>\<open>null\<close> (\<open>None\<close>) until the first pass has
  stored its count; it lives as long as the scenario, across the calls of the benchmarked
  function. \<open>calls\<close> is the number of decodes the scenario has made.
\<close>

record bench_state =
  opts :: "nat option"
  calls :: nat

definition IN_LOOP_ITERATIONS :: nat where
  "IN_LOOP_ITERATIONS = 5"

text \<open>
  The loop \<^verbatim>\<open>for (let i = 0; i < IN_LOOP_ITERATIONS; i++)\<close> of the benchmarked function,
  with \<open>n\<close> iterations left. \<open>decode k\<close> is the tile returned by the decoder at its call
  number \<open>k\<close>.
\<close>

fun inner_loop ::
  "string \<Rightarrow> ('f \<Rightarrow> 'res) \<Rightarrow> (nat \<Rightarrow> 'f DecodedTile) \<Rightarrow> nat \<Rightarrow> bench_state \<Rightarrow> bench_state effect" where
  "inner_loop t operation decode 0 st = ([], Normal st)"
| "inner_loop t operation decode (Suc n) st =
     (let decoded = decode (calls st);
          st1 = st\<lparr>calls := Suc (calls st)\<rparr>
      in (case traverse operation decoded of
            Thrown \<Rightarrow> ([], Thrown)
          | Exit code \<Rightarrow> ([], Exit code)
          | Normal count \<Rightarrow>
              (case opts st1 of
                 None \<Rightarrow> inner_loop t operation decode n (st1\<lparr>opts := Some count\<rparr>)
               | Some recorded \<Rightarrow>
                   if count \<noteq> recorded \<or> count < 1 then
                     ([Stderr (''Feature count mismatch for '' @ t)], Exit 1)
                   else inner_loop t operation decode n st1)))"

definition fn ::
  "string \<Rightarrow> ('f \<Rightarrow> 'res) \<Rightarrow> (nat \<Rightarrow> 'f DecodedTile) \<Rightarrow> bench_state \<Rightarrow> bench_state effect" where
  "fn t operation decode st = inner_loop t operation decode IN_LOOP_ITERATIONS st"

text \<open>
  The benchmark library calls the benchmarked function again and again; how often is its
  decision (it depends on the time bounds), the parameter \<open>reps\<close>.
\<close>

fun repeat_fn ::
  "string \<Rightarrow> ('f \<Rightarrow> 'res) \<Rightarrow> (nat \<Rightarrow> 'f DecodedTile) \<Rightarrow> nat \<Rightarrow> bench_state \<Rightarrow> bench_state effect" where
  "repeat_fn t operation decode 0 st = ([], Normal st)"
| "repeat_fn t operation decode (Suc reps) st =
     (case fn t operation decode st of
        (out, Normal st') \<Rightarrow>
          (case repeat_fn t operation decode reps st' of (out', c) \<Rightarrow> (out @ out', c))
      | (out, Exit code) \<Rightarrow> (out, Exit code)
      | (out, Thrown) \<Rightarrow> (out, Thrown))"

definition run_scenario ::
  "string \<Rightarrow> ('f \<Rightarrow> 'res) \<Rightarrow> (nat \<Rightarrow> 'f DecodedTile) \<Rightarrow> nat \<Rightarrow> bench_state effect" where
  "run_scenario t operation decode reps =
     repeat_fn t operation decode reps \<lparr>opts = None, calls = 0\<rparr>"

text \<open>Sequencing: the second computation runs only when the first ends normally.\<close>

definition bind_effect :: "'a effect \<Rightarrow> ('a \<Rightarrow> 'b effect) \<Rightarrow> 'b effect" where
  "bind_effect e f =
     (case e of
        (out, Normal a) \<Rightarrow> (case f a of (out', c) \<Rightarrow> (out @ out', c))
      | (out, Exit code) \<Rightarrow> (out, Exit code)
      | (out, Thrown) \<Rightarrow> (out, Thrown))"

record Flags =
  willValidate :: bool
  willRunMLT :: bool
  willRunMVT :: bool
  willRunMLTJSON :: bool
  willRunMVTJSON :: bool

text \<open>
  A benchmark added to the suite when its flag is set: the scenario runs, then the
  \<open>cycle\<close> listener prints the library's report line for it (\<open>cycle\<close>, a parameter). The
  value is the scenario's \<open>opts\<close> at the end.
\<close>

definition benchmark ::
  "bool \<Rightarrow> (string \<Rightarrow> string) \<Rightarrow> string \<Rightarrow> bench_state effect \<Rightarrow> nat option option effect" where
  "benchmark enabled cycle name scenario =
     (if enabled then
        bind_effect scenario (\<lambda>st. ([Stdout (cycle name)], Normal (Some (opts st))))
      else ([], Normal None))"

definition string_of_opts :: "nat option \<Rightarrow> string" where
  "string_of_opts v = (case v of None \<Rightarrow> ''null'' | Some n \<Rightarrow> ToString_nat n)"

text \<open>The \<open>complete\<close> listener of a benchmark that was added.\<close>

definition total_line :: "string \<Rightarrow> nat option option \<Rightarrow> out_line list" where
  "total_line label v =
     (case v of None \<Rightarrow> [] | Some final \<Rightarrow> [Stdout (label @ string_of_opts final)])"

definition runSuite ::
  "Flags \<Rightarrow> (string \<Rightarrow> nat) \<Rightarrow> (string \<Rightarrow> string) \<Rightarrow>
   (nat \<Rightarrow> string \<Rightarrow> 'm \<Rightarrow> ('n, 'r, 'c, 'p, 'v) MltFeature DecodedTile) \<Rightarrow>
   (nat \<Rightarrow> string \<Rightarrow> ('n, 'r, 'c, 'v) VectorTileFeature DecodedTile) \<Rightarrow>
   ('n, 'r, 'c, 'p) Projection \<Rightarrow> (int \<Rightarrow> 'n) \<Rightarrow> ('n, string, 'm) TileInput \<Rightarrow> unit effect" where
  "runSuite flags reps cycle decodeMlTile VectorTile project of_bigint input =
     (let t = tile input in
      bind_effect
        (benchmark (willRunMVT flags) cycle (''MVT -> loadGeo '' @ t)
           (run_scenario t (\<lambda>feature. mvt_loadGeometry feature ())
              (\<lambda>k. VectorTile k (mvtTile input)) (reps (''MVT -> loadGeo '' @ t))))
        (\<lambda>mvt.
      bind_effect
        (benchmark (willRunMLT flags) cycle (''MLT -> loadGeo '' @ t)
           (run_scenario t loadGeometry
              (\<lambda>k. decodeMlTile k (mltTile input) (tableMeta input))
              (reps (''MLT -> loadGeo '' @ t))))
        (\<lambda>mlt.
      bind_effect
        (benchmark (willRunMVTJSON flags) cycle (''MVT -> GeoJSON '' @ t)
           (run_scenario t
              (\<lambda>feature. mvt_toGeoJSON feature (tile_x input) (tile_y input) (tile_z input))
              (\<lambda>k. VectorTile k (mvtTile input)) (reps (''MVT -> GeoJSON '' @ t))))
        (\<lambda>mvtjson.
      bind_effect
        (benchmark (willRunMLTJSON flags) cycle (''MLT -> GeoJSON '' @ t)
           (run_scenario t
              (\<lambda>feature. toGeoJSON project of_bigint feature
                            (tile_x input) (tile_y input) (tile_z input))
              (\<lambda>k. decodeMlTile k (mltTile input) (tableMeta input))
              (reps (''MLT -> GeoJSON '' @ t))))
        (\<lambda>mltjson.
           (total_line ''  Total MVT features(loadGeometry) processed: '' mvt @
            total_line ''  Total MLT features(loadGeometry) processed: '' mlt @
            total_line ''  Total MVT features(json) processed: '' mvtjson @
            total_line ''  Total MLT features(json) processed: '' mltjson,
            Normal ()))))))"

section \<open>Sequencing of loading, validation and benchmarks (runSuites)\<close>

fun load_all ::
  "(string \<Rightarrow> string option) \<Rightarrow> (string \<Rightarrow> 'm) \<Rightarrow> (string \<Rightarrow> 'n) \<Rightarrow> string list \<Rightarrow>
   ('n, string, 'm) TileInput list effect" where
  "load_all readFileSync fromBinary Number [] = ([], Normal [])"
| "load_all readFileSync fromBinary Number (t # ts) =
     (case load readFileSync fromBinary Number t of
        Inl e \<Rightarrow> ([], Thrown)
      | Inr input \<Rightarrow>
          (case load_all readFileSync fromBinary Number ts of
             (out, Normal inputs) \<Rightarrow> (out, Normal (input # inputs))
           | (out, Exit code) \<Rightarrow> (out, Exit code)
           | (out, Thrown) \<Rightarrow> (out, Thrown)))"

text \<open>The check mark of the pass line is U+2714, three bytes in UTF-8.\<close>

definition passed_prefix :: string where
  "passed_prefix = [CHR '' '', CHR 0xE2, CHR 0x9C, CHR 0x94] @ '' passed for ''"

fun validate_all ::
  "(('n, string, 'm) TileInput \<Rightarrow> unit effect) \<Rightarrow> ('n, string, 'm) TileInput list \<Rightarrow> unit effect" where
  "validate_all validate_one [] = ([], Normal ())"
| "validate_all validate_one (input # inputs) =
     (case validate_one input of
        (out, Normal u) \<Rightarrow>
          (case validate_all validate_one inputs of
             (out', c) \<Rightarrow>
               ([Stdout (''Validating result for '' @ tile input)] @ out @
                [Stdout (passed_prefix @ tile input)] @ out', c))
      | (out, Exit code) \<Rightarrow> ([Stdout (''Validating result for '' @ tile input)] @ out, Exit code)
      | (out, Thrown) \<Rightarrow> ([Stdout (''Validating result for '' @ tile input)] @ out, Thrown))"

fun run_all ::
  "(('n, string, 'm) TileInput \<Rightarrow> unit effect) \<Rightarrow> ('n, string, 'm) TileInput list \<Rightarrow> unit effect" where
  "run_all runSuite_one [] = ([], Normal ())"
| "run_all runSuite_one (input # inputs) =
     (case runSuite_one input of
        (out, Normal u) \<Rightarrow>
          (case run_all runSuite_one inputs of
             (out', c) \<Rightarrow> ([Stdout (''Running benchmarks for '' @ tile input)] @ out @ out', c))
      | (out, Exit code) \<Rightarrow> ([Stdout (''Running benchmarks for '' @ tile input)] @ out, Exit code)
      | (out, Thrown) \<Rightarrow> ([Stdout (''Running benchmarks for '' @ tile input)] @ out, Thrown))"

definition runSuites ::
  "Flags \<Rightarrow> (string \<Rightarrow> string option) \<Rightarrow> (string \<Rightarrow> 'm) \<Rightarrow> (string \<Rightarrow> 'n) \<Rightarrow>
   (string \<Rightarrow> nat) \<Rightarrow> (string \<Rightarrow> string) \<Rightarrow>
   (nat \<Rightarrow> string \<Rightarrow> 'm \<Rightarrow> ('n, 'r, 'c, 'p, 'v) MltFeature DecodedTile) \<Rightarrow>
   (nat \<Rightarrow> string \<Rightarrow> ('n, 'r, 'c, 'v) VectorTileFeature DecodedTile) \<Rightarrow>
   ('n, 'r, 'c, 'p) Projection \<Rightarrow> (int \<Rightarrow> 'n) \<Rightarrow> string list \<Rightarrow> unit effect" where
  "runSuites flags readFileSync fromBinary Number reps cycle decodeMlTile VectorTile project
     of_bigint tiles =
     bind_effect (load_all readFileSync fromBinary Number tiles)
       (\<lambda>inputs.
     bind_effect
       (if willValidate flags then
          validate_all (validate decodeMlTile VectorTile project of_bigint) inputs
        else ([], Normal ()))
       (\<lambda>u.
          run_all (runSuite flags reps cycle decodeMlTile VectorTile project of_bigint) inputs))"

section \<open>Reading the output\<close>

text \<open>
  The four lines printed when the serialised key lists of a feature pair differ (tile and
  feature index on stderr, then the two serialised lists on stdout), and the line that
  \<open>runSuites\<close> prints before the benchmarks of a tile.
\<close>

definition key_set_diagnostic :: "string \<Rightarrow> nat \<Rightarrow> string list \<Rightarrow> string list \<Rightarrow> out_line list" where
  "key_set_diagnostic t i ks mks =
     [Stderr (''Validation failed for '' @ t @ '' '' @ ToString_nat i),
      Stdout (JSON_stringify ks),
      Stdout ''  vs'',
      Stdout (JSON_stringify mks)]"

definition is_benchmark_line :: "out_line \<Rightarrow> bool" where
  "is_benchmark_line l =
     (case l of Stdout s \<Rightarrow> take 23 s = ''Running benchmarks for '' | Stderr s \<Rightarrow> False)"

definition no_benchmark_started :: "out_line list \<Rightarrow> bool" where
  "no_benchmark_started out = list_all (\<lambda>l. \<not> is_benchmark_line l) out"

text \<open>Whether a word occurs in some line of the output.\<close>

fun is_prefix_of :: "string \<Rightarrow> string \<Rightarrow> bool" where
  "is_prefix_of [] s = True"
| "is_prefix_of (c # w) [] = False"
| "is_prefix_of (c # w) (d # s) = (c = d \<and> is_prefix_of w s)"

fun occurs_in :: "string \<Rightarrow> string \<Rightarrow> bool" where
  "occurs_in w [] = (w = [])"
| "occurs_in w (c # s) = (is_prefix_of w (c # s) \<or> occurs_in w s)"

definition line_text :: "out_line \<Rightarrow> string" where
  "line_text l = (case l of Stdout s \<Rightarrow> s | Stderr s \<Rightarrow> s)"

definition names_in_output :: "string \<Rightarrow> out_line list \<Rightarrow> bool" where
  "names_in_output w out = list_ex (\<lambda>l. occurs_in w (line_text l)) out"


section \<open>Inputs used in the examples\<close>

definition raw_point_feature ::
  "(int, int, (int \<times> int) list list, int \<times> int, int \<times> int, string) Feature" where
  "raw_point_feature =
     \<lparr>fid = JsBigInt 7,
      geometry = \<lparr>loadGeometry_prop = Absent, toGeoJSON_prop = NotCallable, pair = (3, 4)\<rparr>,
      properties = [(''name'', ''a'')]\<rparr>"

definition self_decoding_feature ::
  "(int, int, (int \<times> int) list list, int \<times> int, int \<times> int, string) Feature" where
  "self_decoding_feature =
     \<lparr>fid = JsNumber 9,
      geometry =
        \<lparr>loadGeometry_prop = Callable (\<lambda>_. [[(0, 0), (1, 1)]]),
         toGeoJSON_prop = Callable (\<lambda>x y z. \<lparr>gtype = ''LineString'', coordinates = Some (x + y, z)\<rparr>),
         pair = (0, 0)\<rparr>,
      properties = [(''class'', ''road'')]\<rparr>"

definition shift_project ::
  "int \<Rightarrow> int \<Rightarrow> int \<Rightarrow> (int, (int \<times> int) list list, int \<times> int, int \<times> int) Geometry list \<Rightarrow>
   (int \<times> int) list" where
  "shift_project x y z gs = map (\<lambda>g. (fst (pair g) + x, snd (pair g) + y)) gs"

text \<open>
  A file system in which every path exists and holds its own name, and a stand-in for
  \<^verbatim>\<open>Number\<close> on strings: the value of a string of decimal digits, \<open>NaN\<close> for the
  other strings of the examples.
\<close>

datatype example_number = NaN | Num int

definition decimal_Number :: "string \<Rightarrow> example_number" where
  "decimal_Number s =
     (if list_all (\<lambda>c. CHR ''0'' \<le> c \<and> c \<le> CHR ''9'') s
      then Num (foldl (\<lambda>a c. 10 * a + (of_char c - 48)) 0 s)
      else NaN)"

definition every_file :: "string \<Rightarrow> string option" where
  "every_file path = Some path"

text \<open>
  A raw point feature of the MLT side and a feature of the MVT side, each with the given
  property keys; the MVT feature reports the given geometry type.
\<close>

definition mlt_feature ::
  "string list \<Rightarrow> (example_number, (int \<times> int) list list, int \<times> int, int \<times> int, string) MltFeature" where
  "mlt_feature ks =
     \<lparr>fid = JsNumber (Num 1),
      geometry = \<lparr>loadGeometry_prop = Absent, toGeoJSON_prop = Absent, pair = (0, 0)\<rparr>,
      properties = map (\<lambda>k. (k, ''v'')) ks\<rparr>"

definition mvt_feature ::
  "string \<Rightarrow> string list \<Rightarrow> (example_number, (int \<times> int) list list, int \<times> int, string) VectorTileFeature" where
  "mvt_feature gt ks =
     \<lparr>mvt_properties = map (\<lambda>k. (k, ''v'')) ks,
      mvt_loadGeometry = (\<lambda>u. []),
      mvt_toGeoJSON = (\<lambda>x y z.
        \<lparr>gj_type = ''Feature'', gj_id = Num 0,
         gj_geometry = \<lparr>gtype = gt, coordinates = None\<rparr>,
         gj_properties = map (\<lambda>k. (k, ''v'')) ks\<rparr>)\<rparr>"

definition pair_project :: "(example_number, (int \<times> int) list list, int \<times> int, int \<times> int) Projection" where
  "pair_project x y z gs = map pair gs"

definition bing_input :: "(example_number, string, unit) TileInput" where
  "bing_input =
     \<lparr>tile = ''bing/4-8-5'', tile_x = Some (Num 8), tile_y = Some (Num 5), tile_z = Some (Num 4),
      mltTile = ''../test/expected/bing/4-8-5.mlt'',
      mvtTile = ''../test/fixtures/bing/4-8-5.mvt'', tableMeta = ()\<rparr>"

text \<open>
  A decoder whose feature count changes with every other call, and one that always
  returns the same tile.
\<close>

definition drifting_decoder ::
  "nat \<Rightarrow> (example_number, (int \<times> int) list list, int \<times> int, int \<times> int, string) MltFeature DecodedTile" where
  "drifting_decoder k =
     \<lparr>layers = [(''building'', replicate (if even k then 3 else 2) (mlt_feature [''name'']))]\<rparr>"

definition steady_decoder ::
  "nat \<Rightarrow> (example_number, (int \<times> int) list list, int \<times> int, int \<times> int, string) MltFeature DecodedTile" where
  "steady_decoder k = \<lparr>layers = [(''building'', replicate 3 (mlt_feature [''name'']))]\<rparr>"

text \<open>Decoded tiles of the examples; the decoders ignore their input.\<close>

type_synonym example_mlt_tile =
  "(example_number, (int \<times> int) list list, int \<times> int, int \<times> int, string) MltFeature DecodedTile"

type_synonym example_mvt_tile =
  "(example_number, (int \<times> int) list list, int \<times> int, string) VectorTileFeature DecodedTile"

definition one_building_mlt :: "nat \<Rightarrow> string \<Rightarrow> unit \<Rightarrow> example_mlt_tile" where
  "one_building_mlt k bytes meta = \<lparr>layers = [(''building'', [mlt_feature [''name'']])]\<rparr>"

definition one_building_mvt :: "nat \<Rightarrow> string \<Rightarrow> example_mvt_tile" where
  "one_building_mvt k bytes = \<lparr>layers = [(''building'', [mvt_feature ''Point'' [''name'']])]\<rparr>"

definition three_building_mvt :: "nat \<Rightarrow> string \<Rightarrow> example_mvt_tile" where
  "three_building_mvt k bytes =
     \<lparr>layers = [(''building'',
        [mvt_feature ''Point'' [''name''], mvt_feature ''Polygon'' [''height''],
         mvt_feature ''LineString'' []])]\<rparr>"

definition building_road_mvt :: "nat \<Rightarrow> string \<Rightarrow> example_mvt_tile" where
  "building_road_mvt k bytes =
     \<lparr>layers = [(''building'', [mvt_feature ''Point'' [''name'']]),
                (''road'', [mvt_feature ''LineString'' [''class'']])]\<rparr>"

definition polygon_building_mvt :: "nat \<Rightarrow> string \<Rightarrow> example_mvt_tile" where
  "polygon_building_mvt k bytes = \<lparr>layers = [(''building'', [mvt_feature ''Polygon'' [''name'']])]\<rparr>"

definition no_layers_mlt :: "nat \<Rightarrow> string \<Rightarrow> unit \<Rightarrow> example_mlt_tile" where
  "no_layers_mlt k bytes meta = \<lparr>layers = []\<rparr>"

text \<open>
  Flag settings, a benchmark library that calls each benchmarked function once, and a
  report line that is the benchmark's name.
\<close>

definition validate_and_mlt :: Flags where
  "validate_and_mlt =
     \<lparr>willValidate = True, willRunMLT = True, willRunMVT = False,
      willRunMLTJSON = False, willRunMVTJSON = False\<rparr>"

definition once :: "string \<Rightarrow> nat" where
  "once name = 1"

definition name_only :: "string \<Rightarrow> string" where
  "name_only name = name"

definition validate_and_mvt :: Flags where
  "validate_and_mvt =
     \<lparr>willValidate = True, willRunMLT = False, willRunMVT = True,
      willRunMLTJSON = False, willRunMVTJSON = False\<rparr>"

text \<open>
  A tile whose MLT decode lists \<open>road\<close> before \<open>building\<close>; on the MVT side \<open>road\<close>
  has another key and \<open>building\<close> another geometry type, and there is a third layer.
\<close>

definition road_building_mlt :: "nat \<Rightarrow> string \<Rightarrow> unit \<Rightarrow> example_mlt_tile" where
  "road_building_mlt k bytes meta =
     \<lparr>layers = [(''road'', [mlt_feature [''class'']]),
                (''building'', [mlt_feature [''name'']])]\<rparr>"

definition water_road_building_mvt :: "nat \<Rightarrow> string \<Rightarrow> example_mvt_tile" where
  "water_road_building_mvt k bytes =
     \<lparr>layers = [(''water'', [mvt_feature ''Polygon'' []]),
                (''road'', [mvt_feature ''LineString'' [''kind'']]),
                (''building'', [mvt_feature ''Polygon'' [''name'']])]\<rparr>"

text \<open>
  A tile whose layer \<open>building\<close> has four features, the MVT decode omitting the key
  \<open>name\<close> of the feature at index 3; and a metadata parser.
\<close>

definition four_building_mlt :: "nat \<Rightarrow> string \<Rightarrow> unit \<Rightarrow> example_mlt_tile" where
  "four_building_mlt k bytes meta =
     \<lparr>layers = [(''building'',
        [mlt_feature [''class'', ''name''], mlt_feature [''class'', ''name''],
         mlt_feature [''class'', ''name''], mlt_feature [''class'', ''name'']])]\<rparr>"

definition four_building_mvt_omitting :: "nat \<Rightarrow> string \<Rightarrow> example_mvt_tile" where
  "four_building_mvt_omitting k bytes =
     \<lparr>layers = [(''building'',
        [mvt_feature ''Point'' [''class'', ''name''], mvt_feature ''Point'' [''class'', ''name''],
         mvt_feature ''Point'' [''class'', ''name''], mvt_feature ''Point'' [''class'']])]\<rparr>"

definition unit_metadata :: "string \<Rightarrow> unit" where
  "unit_metadata bytes = ()"

section \<open>Properties of the sort order\<close>

lemma set_js_sort [simp]: "set (js_sort names) = set names"
  by (simp add: js_sort_def)

lemma length_js_sort [simp]: "length (js_sort names) = length names"
  by (simp add: js_sort_def)

lemma distinct_js_sort [simp]: "distinct (js_sort names) = distinct names"
  by (simp add: js_sort_def)

lemma js_sort_Nil [simp]: "js_sort [] = []"
  by (simp add: js_sort_def)

lemma js_sort_single [simp]: "js_sort [name] = [name]"
  by (simp add: js_sort_def)

lemma sorted_js_sort: "sorted (map (map code_unit_rank) (js_sort names))"
  by (simp add: js_sort_def)

lemmas js_sort_eval = js_sort_def code_unit_rank_def

lemma code_unit_rank_inj: "code_unit_rank c = code_unit_rank d \<Longrightarrow> c = d"
proof -
  assume same: "code_unit_rank c = code_unit_rank d"
  define a b where "a = (of_char c :: nat)" and "b = (of_char d :: nat)"
  from same have "(if 0xF0 \<le> a \<and> a \<le> 0xF4 then a - 2
                   else if a = 0xEE then 0xF3 else if a = 0xEF then 0xF4 else a) =
                  (if 0xF0 \<le> b \<and> b \<le> 0xF4 then b - 2
                   else if b = 0xEE then 0xF3 else if b = 0xEF then 0xF4 else b)"
    unfolding code_unit_rank_def Let_def a_def b_def .
  then have "a = b"
    by (simp split: if_splits) arith+
  then show "c = d"
    by (simp add: a_def b_def)
qed

text \<open>
  U+10000 (bytes F0 90 80 80, code units D800 DC00) is sorted before U+FFFF (bytes EF BF
  BF), as the code units order them, though its bytes are the greater.
\<close>

lemma js_sort_beyond_U_FFFF:
  "js_sort [[CHR 0xEF, CHR 0xBF, CHR 0xBF], [CHR 0xF0, CHR 0x90, CHR 0x80, CHR 0x80], ''z''] =
     [''z'', [CHR 0xF0, CHR 0x90, CHR 0x80, CHR 0x80], [CHR 0xEF, CHR 0xBF, CHR 0xBF]]"
  by (simp add: js_sort_eval)

section \<open>Properties of the feature view\<close>

text \<open>
  C8. \<^verbatim>\<open>loadGeometry()\<close> returns what the geometry object's own \<^verbatim>\<open>loadGeometry\<close>
  returns, unchanged, when that property is a function; in every other case it returns the
  geometry object wrapped as one ring of one point, \<^verbatim>\<open>[[geometry]]\<close>.
\<close>

theorem loadGeometry_dispatch:
  "(\<forall>own. loadGeometry_prop (geometry this) = Callable own \<longrightarrow>
      loadGeometry this = Verbatim (own ()))
   \<and> (\<not> is_function (loadGeometry_prop (geometry this)) \<longrightarrow>
      loadGeometry this = Rings [[geometry this]])"
  by (cases "loadGeometry_prop (geometry this)") (simp_all add: loadGeometry_def)

theorem loadGeometry_dispatch_witness:
  "loadGeometry self_decoding_feature = Verbatim [[(0, 0), (1, 1)]]
   \<and> loadGeometry raw_point_feature = Rings [[geometry raw_point_feature]]"
  using loadGeometry_dispatch [of self_decoding_feature]
    loadGeometry_dispatch [of raw_point_feature]
  by (simp add: self_decoding_feature_def raw_point_feature_def)

text \<open>
  C9. \<^verbatim>\<open>toGeoJSON(x, y, z)\<close> returns an object whose type tag is \<open>Feature\<close>, whose id
  is \<^verbatim>\<open>Number(this.id)\<close>, whose properties are the feature's properties unchanged, and
  whose geometry is the result of the geometry object's own \<^verbatim>\<open>toGeoJSON(x, y, z)\<close> when
  that property is a function, and otherwise a \<open>Point\<close> whose coordinates are the first
  element of \<^verbatim>\<open>project(x, y, z, [geometry])\<close>.
\<close>

theorem toGeoJSON_result:
  "gj_type (toGeoJSON project of_bigint this x y z) = ''Feature''
   \<and> gj_id (toGeoJSON project of_bigint this x y z) = Number_numeric of_bigint (fid this)
   \<and> gj_properties (toGeoJSON project of_bigint this x y z) = properties this
   \<and> (\<forall>own. toGeoJSON_prop (geometry this) = Callable own \<longrightarrow>
        gj_geometry (toGeoJSON project of_bigint this x y z) = own x y z)
   \<and> (\<not> is_function (toGeoJSON_prop (geometry this)) \<longrightarrow>
        gtype (gj_geometry (toGeoJSON project of_bigint this x y z)) = ''Point''
        \<and> coordinates (gj_geometry (toGeoJSON project of_bigint this x y z)) =
            js_index (project x y z [geometry this]) 0)"
  by (cases "toGeoJSON_prop (geometry this)") (simp_all add: toGeoJSON_def)

theorem toGeoJSON_result_witness:
  "gj_geometry (toGeoJSON shift_project id self_decoding_feature 8 5 4) =
     \<lparr>gtype = ''LineString'', coordinates = Some (13, 4)\<rparr>
   \<and> gj_id (toGeoJSON shift_project id raw_point_feature 8 5 4) = 7
   \<and> gtype (gj_geometry (toGeoJSON shift_project id raw_point_feature 8 5 4)) = ''Point''
   \<and> coordinates (gj_geometry (toGeoJSON shift_project id raw_point_feature 8 5 4)) = Some (11, 9)"
  using toGeoJSON_result [of shift_project id self_decoding_feature 8 5 4]
    toGeoJSON_result [of shift_project id raw_point_feature 8 5 4]
  by (simp add: self_decoding_feature_def raw_point_feature_def shift_project_def)

section \<open>Properties of the benchmark orchestrator\<close>

lemma visit_features_count: "visit_features operation layer count = count + length layer"
  by (induction layer arbitrary: count) simp_all

lemma visit_layers_Normal:
  "set names \<subseteq> fst ` set (layers decoded) \<Longrightarrow>
   \<exists>n. visit_layers operation decoded names count = Normal n"
proof (induction names arbitrary: count)
  case Nil
  then show ?case by simp
next
  case (Cons name names)
  then obtain layer where "map_of (layers decoded) name = Some layer"
    by (cases "map_of (layers decoded) name") (auto simp: map_of_eq_None_iff)
  with Cons show ?case by simp
qed

lemma traverse_Normal: "traverse operation decoded = Normal (pass_count operation decoded)"
proof -
  have "\<exists>n. traverse operation decoded = Normal n"
    unfolding traverse_def by (rule visit_layers_Normal) (simp add: Object_keys_def)
  then show ?thesis by (auto simp: pass_count_def)
qed

lemma inner_loop_recorded:
  "inner_loop t operation decode n \<lparr>opts = Some r, calls = k0\<rparr> =
     (if \<exists>j<n. pass_count operation (decode (k0 + j)) \<noteq> r
               \<or> pass_count operation (decode (k0 + j)) < 1
      then ([Stderr (''Feature count mismatch for '' @ t)], Exit 1)
      else ([], Normal \<lparr>opts = Some r, calls = k0 + n\<rparr>))"
proof (induction n arbitrary: k0)
  case 0
  then show ?case by simp
next
  case (Suc n)
  let ?bad = "\<lambda>k. pass_count operation (decode k) \<noteq> r \<or> pass_count operation (decode k) < 1"
  have split: "(\<exists>j<Suc n. ?bad (k0 + j)) = (?bad k0 \<or> (\<exists>j<n. ?bad (Suc k0 + j)))"
  proof
    assume "\<exists>j<Suc n. ?bad (k0 + j)"
    then obtain j where j: "j < Suc n" "?bad (k0 + j)" by blast
    show "?bad k0 \<or> (\<exists>j<n. ?bad (Suc k0 + j))"
    proof (cases j)
      case 0
      with j show ?thesis by simp
    next
      case (Suc i)
      with j have "i < n" "?bad (Suc k0 + i)" by simp_all
      then show ?thesis by blast
    qed
  next
    assume "?bad k0 \<or> (\<exists>j<n. ?bad (Suc k0 + j))"
    then show "\<exists>j<Suc n. ?bad (k0 + j)"
    proof
      assume "?bad k0"
      then have "?bad (k0 + 0)" by simp
      then show ?thesis by blast
    next
      assume "\<exists>j<n. ?bad (Suc k0 + j)"
      then obtain j where "j < n" "?bad (Suc k0 + j)" by blast
      then have "Suc j < Suc n" "?bad (k0 + Suc j)" by simp_all
      then show ?thesis by blast
    qed
  qed
  show ?case
  proof (cases "?bad k0")
    case True
    then show ?thesis
      unfolding split by (auto simp: traverse_Normal)
  next
    case False
    then show ?thesis
      unfolding split using Suc.IH [of "Suc k0"] by (simp add: traverse_Normal)
  qed
qed

lemma inner_loop_first:
  "inner_loop t operation decode (Suc n) \<lparr>opts = None, calls = k0\<rparr> =
   inner_loop t operation decode n \<lparr>opts = Some (pass_count operation (decode k0)), calls = Suc k0\<rparr>"
  by (simp add: traverse_Normal)

lemma inner_loop_append:
  "inner_loop t operation decode (m + n) st =
     (case inner_loop t operation decode m st of
        (out, Normal st') \<Rightarrow>
          (case inner_loop t operation decode n st' of (out', c) \<Rightarrow> (out @ out', c))
      | (out, Exit code) \<Rightarrow> (out, Exit code)
      | (out, Thrown) \<Rightarrow> (out, Thrown))"
proof (induction m arbitrary: st)
  case 0
  then show ?case by (cases "inner_loop t operation decode n st") simp
next
  case (Suc m)
  show ?case
    by (cases "opts st") (simp_all add: traverse_Normal Suc.IH)
qed

lemma repeat_fn_flat:
  "repeat_fn t operation decode reps st =
   inner_loop t operation decode (reps * IN_LOOP_ITERATIONS) st"
proof (induction reps arbitrary: st)
  case 0
  then show ?case by simp
next
  case (Suc reps)
  have "inner_loop t operation decode (Suc reps * IN_LOOP_ITERATIONS) st =
        inner_loop t operation decode (IN_LOOP_ITERATIONS + reps * IN_LOOP_ITERATIONS) st"
    by simp
  then show ?case
    by (simp only: inner_loop_append repeat_fn.simps fn_def Suc.IH)
qed


text \<open>
  C1. In every scenario the count of each pass after the first is compared with the count
  the first pass recorded, over all inner-loop iterations of all repetitions: every pass
  yields a count, and if some later pass has a count that differs from the recorded one or
  is below 1, the run ends with exit code 1 after printing \<open>Feature count mismatch for\<close>
  and the tile on stderr; if no later pass does, the scenario completes with the recorded
  count.
\<close>

theorem feature_count_invariant:
  "(\<forall>k. traverse operation (decode k) = Normal (pass_count operation (decode k)))
   \<and> ((\<exists>k. 0 < k \<and> k < reps * IN_LOOP_ITERATIONS
          \<and> (pass_count operation (decode k) \<noteq> pass_count operation (decode 0)
              \<or> pass_count operation (decode k) < 1)) \<longrightarrow>
        run_scenario t operation decode reps =
          ([Stderr (''Feature count mismatch for '' @ t)], Exit 1))
   \<and> ((\<forall>k. 0 < k \<and> k < reps * IN_LOOP_ITERATIONS \<longrightarrow>
          pass_count operation (decode k) = pass_count operation (decode 0)
          \<and> 1 \<le> pass_count operation (decode k)) \<longrightarrow>
        run_scenario t operation decode reps =
          ([], Normal \<lparr>opts = (if reps = 0 then None else Some (pass_count operation (decode 0))),
                        calls = reps * IN_LOOP_ITERATIONS\<rparr>))"
proof (cases "reps * IN_LOOP_ITERATIONS")
  case 0
  then have "reps = 0" by (simp add: IN_LOOP_ITERATIONS_def)
  then show ?thesis
    by (simp add: run_scenario_def traverse_Normal)
next
  case (Suc n)
  then have reps: "reps \<noteq> 0" by (cases reps) simp_all
  let ?bad = "\<lambda>k. pass_count operation (decode k) \<noteq> pass_count operation (decode 0)
                 \<or> pass_count operation (decode k) < 1"
  have shift: "(\<exists>j<n. ?bad (1 + j)) = (\<exists>k. 0 < k \<and> k < Suc n \<and> ?bad k)"
  proof
    assume "\<exists>j<n. ?bad (1 + j)"
    then obtain j where "j < n" "?bad (1 + j)" by blast
    then have "0 < Suc j \<and> Suc j < Suc n \<and> ?bad (Suc j)" by simp
    then show "\<exists>k. 0 < k \<and> k < Suc n \<and> ?bad k" by blast
  next
    assume "\<exists>k. 0 < k \<and> k < Suc n \<and> ?bad k"
    then obtain k where k: "0 < k" "k < Suc n" "?bad k" by blast
    then obtain j where "k = Suc j" by (cases k) auto
    with k have "j < n" "?bad (1 + j)" by simp_all
    then show "\<exists>j<n. ?bad (1 + j)" by blast
  qed
  have run: "run_scenario t operation decode reps =
      inner_loop t operation decode n
        \<lparr>opts = Some (pass_count operation (decode 0)), calls = Suc 0\<rparr>"
    by (simp only: run_scenario_def repeat_fn_flat Suc inner_loop_first)
  show ?thesis
    unfolding run inner_loop_recorded Suc
    using shift reps Suc by (auto simp: traverse_Normal)
qed

theorem feature_count_invariant_witness:
  "run_scenario ''bing/4-8-5'' loadGeometry drifting_decoder 1 =
     ([Stderr ''Feature count mismatch for bing/4-8-5''], Exit 1)
   \<and> run_scenario ''bing/4-8-5'' loadGeometry steady_decoder 2 =
     ([], Normal \<lparr>opts = Some 3, calls = 10\<rparr>)"
proof -
  have p: "\<And>k. pass_count loadGeometry (drifting_decoder k) = (if even k then 3 else 2)"
    by (simp add: pass_count_def traverse_def drifting_decoder_def Object_keys_def
        visit_features_count)
  have q: "\<And>k. pass_count loadGeometry (steady_decoder k) = 3"
    by (simp add: pass_count_def traverse_def steady_decoder_def Object_keys_def
        visit_features_count)
  have "0 < (1::nat) \<and> 1 < 1 * IN_LOOP_ITERATIONS
      \<and> (pass_count loadGeometry (drifting_decoder 1) \<noteq> pass_count loadGeometry (drifting_decoder 0)
          \<or> pass_count loadGeometry (drifting_decoder 1) < 1)"
    by (simp add: p IN_LOOP_ITERATIONS_def)
  then have drift: "\<exists>k. 0 < k \<and> k < 1 * IN_LOOP_ITERATIONS
      \<and> (pass_count loadGeometry (drifting_decoder k) \<noteq> pass_count loadGeometry (drifting_decoder 0)
          \<or> pass_count loadGeometry (drifting_decoder k) < 1)"
    by blast
  have steady: "\<forall>k. 0 < k \<and> k < 2 * IN_LOOP_ITERATIONS \<longrightarrow>
      pass_count loadGeometry (steady_decoder k) = pass_count loadGeometry (steady_decoder 0)
      \<and> 1 \<le> pass_count loadGeometry (steady_decoder k)"
    by (simp add: q)
  show ?thesis
    using feature_count_invariant [of loadGeometry drifting_decoder 1 "''bing/4-8-5''"]
      feature_count_invariant [of loadGeometry steady_decoder 2 "''bing/4-8-5''"]
      drift steady
    by (simp add: q IN_LOOP_ITERATIONS_def)
qed

section \<open>Properties of the fixture loader\<close>

lemma js_index_None: "(js_index xs i = None) = (length xs \<le> i)"
  by (induction xs i rule: js_index.induct) simp_all

lemma js_index_map: "js_index (map f xs) i = map_option f (js_index xs i)"
  by (induction xs i rule: js_index.induct) simp_all

lemma js_index_numeral [simp]:
  "js_index (a # as) (numeral v) = js_index as (pred_numeral v)"
  by (simp add: numeral_eq_Suc)

lemma split_char_nonempty: "split_char sep s \<noteq> []"
  by (induction s) (simp_all split: list.splits)

lemma length_split_char: "length (split_char sep s) = Suc (length (filter (\<lambda>c. c = sep) s))"
proof (induction s)
  case Nil
  then show ?case by simp
next
  case (Cons c s)
  then show ?case
    using split_char_nonempty [of sep s] by (cases "split_char sep s") simp_all
qed

lemma split_char_no_second: "(js_index (split_char sep s) 1 = None) = (sep \<notin> set s)"
  by (auto simp: js_index_None length_split_char filter_empty_conv)

text \<open>
  C7, as the code has it. When the three files exist, the loader takes the second segment
  of the identifier split on \<open>/\<close>, splits it on \<open>-\<close> and converts each component with
  \<^verbatim>\<open>Number\<close>: z, x and y are the converted components 0, 1 and 2, and a component that
  is missing leaves its coordinate \<^verbatim>\<open>undefined\<close>. Nothing is validated: the only failure
  is the \<open>TypeError\<close> of an identifier without \<open>/\<close>.
\<close>

theorem load_coordinates:
  assumes "readFileSync (''../test/expected/'' @ t @ ''.mlt.meta.pbf'') = Some metadata"
    and "readFileSync (''../test/fixtures/'' @ t @ ''.mvt'') = Some mvt"
    and "readFileSync (''../test/expected/'' @ t @ ''.mlt'') = Some mlt"
  shows "(CHR ''/'' \<notin> set t \<longrightarrow> load readFileSync fromBinary Number t = Inl TypeError)
    \<and> (CHR ''/'' \<in> set t \<longrightarrow> (\<exists>segment. js_index (split_char CHR ''/'' t) 1 = Some segment))
    \<and> (\<forall>segment. js_index (split_char CHR ''/'' t) 1 = Some segment \<longrightarrow>
          load readFileSync fromBinary Number t =
            Inr \<lparr>tile = t,
                 tile_x = map_option Number (js_index (split_char CHR ''-'' segment) 1),
                 tile_y = map_option Number (js_index (split_char CHR ''-'' segment) 2),
                 tile_z = map_option Number (js_index (split_char CHR ''-'' segment) 0),
                 mltTile = mlt, mvtTile = mvt, tableMeta = fromBinary metadata\<rparr>)"
proof (intro conjI impI allI)
  assume "CHR ''/'' \<notin> set t"
  then have "js_index (split_char CHR ''/'' t) 1 = None"
    using split_char_no_second [of "CHR ''/''" t] by blast
  with assms show "load readFileSync fromBinary Number t = Inl TypeError"
    by (simp add: load_def)
next
  assume "CHR ''/'' \<in> set t"
  then have "js_index (split_char CHR ''/'' t) 1 \<noteq> None"
    using split_char_no_second [of "CHR ''/''" t] by blast
  then show "\<exists>segment. js_index (split_char CHR ''/'' t) 1 = Some segment"
    by blast
next
  fix segment
  assume "js_index (split_char CHR ''/'' t) 1 = Some segment"
  with assms show "load readFileSync fromBinary Number t =
            Inr \<lparr>tile = t,
                 tile_x = map_option Number (js_index (split_char CHR ''-'' segment) 1),
                 tile_y = map_option Number (js_index (split_char CHR ''-'' segment) 2),
                 tile_z = map_option Number (js_index (split_char CHR ''-'' segment) 0),
                 mltTile = mlt, mvtTile = mvt, tableMeta = fromBinary metadata\<rparr>"
    by (simp add: load_def js_index_map)
qed

theorem load_coordinates_witness:
  "load every_file unit_metadata decimal_Number ''bing/4-8-5'' =
     Inr \<lparr>tile = ''bing/4-8-5'', tile_x = Some (Num 8), tile_y = Some (Num 5),
          tile_z = Some (Num 4), mltTile = ''../test/expected/bing/4-8-5.mlt'',
          mvtTile = ''../test/fixtures/bing/4-8-5.mvt'', tableMeta = ()\<rparr>
   \<and> load every_file unit_metadata decimal_Number ''bad'' = Inl TypeError"
  using load_coordinates [of every_file "''bing/4-8-5''" _ _ _ unit_metadata decimal_Number]
    load_coordinates [of every_file "''bad''" _ _ _ unit_metadata decimal_Number]
  by (simp add: every_file_def decimal_Number_def)

text \<open>
  C7, as stated, fails: the identifier \<open>bing/bad\<close> has one component, which is not numeric,
  and the loader returns an input whose x and y are \<^verbatim>\<open>undefined\<close> and whose z is
  \<open>NaN\<close>, with no error.
\<close>

theorem load_malformed_counterexample:
  "load every_file unit_metadata decimal_Number ''bing/bad'' =
     Inr \<lparr>tile = ''bing/bad'', tile_x = None, tile_y = None, tile_z = Some NaN,
          mltTile = ''../test/expected/bing/bad.mlt'',
          mvtTile = ''../test/fixtures/bing/bad.mvt'', tableMeta = ()\<rparr>"
  by (simp add: load_def every_file_def decimal_Number_def)

section \<open>The serialised key list determines the key list\<close>

lemma hex_digit_code: "n < 16 \<Longrightarrow> (of_char (hex_digit n) :: nat) = (if n < 10 then 48 + n else 87 + n)"
  by (simp add: hex_digit_def)

lemma hex_digit_inj: "n < 16 \<Longrightarrow> m < 16 \<Longrightarrow> hex_digit n = hex_digit m \<Longrightarrow> n = m"
proof -
  assume n: "n < 16" and m: "m < 16" and e: "hex_digit n = hex_digit m"
  from e have "(of_char (hex_digit n) :: nat) = of_char (hex_digit m)" by simp
  with n m show "n = m" by (simp add: hex_digit_code split: if_splits)
qed

lemma hex_pair_inj:
  assumes "hex_digit (of_char c div 16) = hex_digit (of_char d div 16)"
    and "hex_digit (of_char c mod 16) = hex_digit (of_char d mod 16)"
    and "(of_char c :: nat) < 32" and "(of_char d :: nat) < 32"
  shows "c = d"
proof -
  have "(of_char c :: nat) div 16 = of_char d div 16"
    using assms by (intro hex_digit_inj) auto
  moreover have "(of_char c :: nat) mod 16 = of_char d mod 16"
    using assms by (intro hex_digit_inj) auto
  ultimately have "(of_char c :: nat) = of_char d"
    by (metis div_mult_mod_eq)
  then show ?thesis by simp
qed

lemma json_escape_prefix_free:
  "json_escape c @ r = json_escape d @ r' \<Longrightarrow> c = d \<and> r = r'"
  unfolding json_escape_def
  by (auto split: if_splits dest: hex_pair_inj)

lemma json_escape_not_quote: "json_escape c @ r \<noteq> CHR 0x22 # r'"
  by (auto simp: json_escape_def)

lemma json_body_inj:
  "concat (map json_escape s) @ CHR 0x22 # r = concat (map json_escape s') @ CHR 0x22 # r'
   \<Longrightarrow> s = s' \<and> r = r'"
proof (induction s arbitrary: s')
  case Nil
  then show ?case
    by (cases s') (auto dest: json_escape_not_quote [THEN notE, OF sym])
next
  case (Cons c s)
  show ?case
  proof (cases s')
    case Nil
    with Cons.prems show ?thesis
      using json_escape_not_quote by auto
  next
    case (Cons d t)
    with Cons.prems have "json_escape c @ (concat (map json_escape s) @ CHR 0x22 # r)
        = json_escape d @ (concat (map json_escape t) @ CHR 0x22 # r')"
      by simp
    then have "c = d" and "concat (map json_escape s) @ CHR 0x22 # r
        = concat (map json_escape t) @ CHR 0x22 # r'"
      using json_escape_prefix_free by blast+
    with Cons.IH Cons show ?thesis by blast
  qed
qed

lemma json_quote_inj: "json_quote k @ r = json_quote k' @ r' \<Longrightarrow> k = k' \<and> r = r'"
  using json_body_inj [of k r k' r'] by (simp add: json_quote_def)

lemma json_elements_Cons:
  "json_elements (k # ks) = json_quote k @ (if ks = [] then [] else CHR '','' # json_elements ks)"
  by (cases ks) simp_all

lemma json_elements_inj:
  "json_elements ks @ CHR '']'' # r = json_elements ks' @ CHR '']'' # r' \<Longrightarrow> ks = ks'"
proof (induction ks arbitrary: ks')
  case Nil
  then show ?case
    by (cases ks') (auto simp: json_elements_Cons json_quote_def)
next
  case (Cons k ks)
  show ?case
  proof (cases ks')
    case Nil
    with Cons.prems show ?thesis
      by (auto simp: json_elements_Cons json_quote_def)
  next
    case (Cons k' t)
    from Cons.prems Cons
    have "json_quote k @ ((if ks = [] then [] else CHR '','' # json_elements ks) @ CHR '']'' # r)
        = json_quote k' @ ((if t = [] then [] else CHR '','' # json_elements t) @ CHR '']'' # r')"
      by (simp only: json_elements_Cons append_assoc)
    then have k: "k = k'"
      and rest: "(if ks = [] then [] else CHR '','' # json_elements ks) @ CHR '']'' # r
        = (if t = [] then [] else CHR '','' # json_elements t) @ CHR '']'' # r'"
      using json_quote_inj by blast+
    from rest have "ks = t"
      using Cons.IH [of t] by (auto split: if_splits)
    with k Cons show ?thesis by simp
  qed
qed

lemma JSON_stringify_inj: "JSON_stringify ks = JSON_stringify ks' \<Longrightarrow> ks = ks'"
  using json_elements_inj [of ks "[]" ks' "[]"] by (simp add: JSON_stringify_def)

section \<open>Properties of the equivalence validator\<close>

lemma js_index_take: "i < n \<Longrightarrow> js_index (take n xs) i = js_index xs i"
proof (induction xs i arbitrary: n rule: js_index.induct)
  case (1 i)
  then show ?case by simp
next
  case (2 a as)
  then show ?case by (cases n) simp_all
next
  case (3 a as i)
  then show ?case by (cases n) simp_all
qed

lemma validate_features_mismatch:
  assumes "js_index mvtFeatures i = Some mvtFeature"
    and "featureKeys feature \<noteq> mvtFeatureKeys mvtFeature"
  shows "validate_features project of_bigint input (Some mvtFeatures) i (feature # rest) =
     (console_assert (length (featureKeys feature) = length (mvtFeatureKeys mvtFeature))
        (''Feature keys mismatch for '' @ tile input) @
      [Stderr (''Validation failed for '' @ tile input @ '' '' @ ToString_nat i),
       Stdout (JSON_stringify (featureKeys feature)),
       Stdout ''  vs'',
       Stdout (JSON_stringify (mvtFeatureKeys mvtFeature))],
      Exit 1)"
proof -
  from assms(2) have "JSON_stringify (featureKeys feature) \<noteq> JSON_stringify (mvtFeatureKeys mvtFeature)"
    using JSON_stringify_inj by blast
  with assms(1) show ?thesis by (simp add: Let_def)
qed

lemma validate_features_match:
  assumes "js_index mvtFeatures i = Some mvtFeature"
    and "featureKeys feature = mvtFeatureKeys mvtFeature"
  shows "validate_features project of_bigint input (Some mvtFeatures) i (feature # rest) =
     (console_assert
        (gtype (gj_geometry (toGeoJSON project of_bigint feature
                  (tile_x input) (tile_y input) (tile_z input))) =
         gtype (gj_geometry (mvt_toGeoJSON mvtFeature (tile_x input) (tile_y input) (tile_z input))))
        (''Geometry type mismatch for '' @ tile input @ '' '' @ ToString_nat i) @
      fst (validate_features project of_bigint input (Some mvtFeatures) (Suc i) rest),
      snd (validate_features project of_bigint input (Some mvtFeatures) (Suc i) rest))"
  using assms by (simp add: Let_def console_assert_def split: prod.splits)

lemma validate_features_take:
  "i + length fs \<le> n \<Longrightarrow>
   validate_features project of_bigint input (map_option (take n) mvtLayer) i fs =
   validate_features project of_bigint input mvtLayer i fs"
proof (induction fs arbitrary: i)
  case Nil
  then show ?case by simp
next
  case (Cons f fs)
  then have i: "i < n" and rest: "Suc i + length fs \<le> n" by simp_all
  show ?case
  proof (cases mvtLayer)
    case None
    then show ?thesis by simp
  next
    case (Some mfs)
    have ix: "js_index (take n mfs) i = js_index mfs i"
      using i by (rule js_index_take)
    have ih: "validate_features project of_bigint input (Some (take n mfs)) (Suc i) fs =
          validate_features project of_bigint input (Some mfs) (Suc i) fs"
      using Cons.IH [OF rest] Some by simp
    show ?thesis
    proof (cases "js_index mfs i")
      case None
      with ix Some show ?thesis by simp
    next
      case (Some mf)
      note mf = this
      show ?thesis
      proof (cases "featureKeys f = mvtFeatureKeys mf")
        case True
        have "validate_features project of_bigint input (Some (take n mfs)) i (f # fs) =
              validate_features project of_bigint input (Some mfs) i (f # fs)"
          using ih
          by (simp only: validate_features_match [OF ix [unfolded mf] True]
              validate_features_match [OF mf True])
        with \<open>mvtLayer = Some mfs\<close> show ?thesis by simp
      next
        case False
        have "validate_features project of_bigint input (Some (take n mfs)) i (f # fs) =
              validate_features project of_bigint input (Some mfs) i (f # fs)"
          by (simp only: validate_features_mismatch [OF ix [unfolded mf] False]
              validate_features_mismatch [OF mf False])
        with \<open>mvtLayer = Some mfs\<close> show ?thesis by simp
      qed
    qed
  qed
qed

lemma validate_features_prefix_cong:
  assumes "map_option (take (length fs)) mvtLayer = map_option (take (length fs)) mvtLayer'"
  shows "validate_features project of_bigint input mvtLayer 0 fs =
         validate_features project of_bigint input mvtLayer' 0 fs"
proof -
  have "validate_features project of_bigint input mvtLayer 0 fs =
        validate_features project of_bigint input (map_option (take (length fs)) mvtLayer) 0 fs"
    by (simp add: validate_features_take)
  also have "\<dots> = validate_features project of_bigint input (map_option (take (length fs)) mvtLayer') 0 fs"
    by (simp only: assms)
  also have "\<dots> = validate_features project of_bigint input mvtLayer' 0 fs"
    by (simp add: validate_features_take)
  finally show ?thesis .
qed

lemma validate_layers_step:
  assumes "map_of (layers decoded) layerName = Some layer"
  shows "validate_layers project of_bigint input decoded mvtDecoded count (layerName # rest) =
     (case validate_features project of_bigint input (map_of (layers mvtDecoded) layerName) 0 layer of
        (out, Normal u) \<Rightarrow>
          (out @ fst (validate_layers project of_bigint input decoded mvtDecoded (Suc count) rest),
           snd (validate_layers project of_bigint input decoded mvtDecoded (Suc count) rest))
      | (out, Exit code) \<Rightarrow> (out, Exit code)
      | (out, Thrown) \<Rightarrow> (out, Thrown))"
  using assms by (simp add: Let_def split: prod.splits completion.splits)

lemma validate_layers_prefix_cong:
  assumes "\<forall>name\<in>set names. \<forall>layer. map_of (layers decoded) name = Some layer \<longrightarrow>
      map_option (take (length layer)) (map_of (layers mvtDecoded) name) =
      map_option (take (length layer)) (map_of (layers mvtDecoded') name)"
  shows "validate_layers project of_bigint input decoded mvtDecoded count names =
         validate_layers project of_bigint input decoded mvtDecoded' count names"
  using assms
proof (induction names arbitrary: count)
  case Nil
  then show ?case by simp
next
  case (Cons name names)
  show ?case
  proof (cases "map_of (layers decoded) name")
    case None
    then show ?thesis by simp
  next
    case (Some layer)
    with Cons.prems have "map_option (take (length layer)) (map_of (layers mvtDecoded) name) =
      map_option (take (length layer)) (map_of (layers mvtDecoded') name)"
      by simp
    then have f: "validate_features project of_bigint input (map_of (layers mvtDecoded) name) 0 layer =
       validate_features project of_bigint input (map_of (layers mvtDecoded') name) 0 layer"
      by (rule validate_features_prefix_cong)
    have r: "validate_layers project of_bigint input decoded mvtDecoded (Suc count) names =
         validate_layers project of_bigint input decoded mvtDecoded' (Suc count) names"
      using Cons.IH [of "Suc count"] Cons.prems by simp
    show ?thesis
      by (simp only: validate_layers_step [OF Some] f r)
  qed
qed

lemma validate_layers_count:
  "validate_layers project of_bigint input decoded mvtDecoded count names = (out, Normal c) \<Longrightarrow>
   c = count + length names"
proof (induction names arbitrary: count out)
  case Nil
  then show ?case by simp
next
  case (Cons name names)
  show ?case
  proof (cases "map_of (layers decoded) name")
    case None
    with Cons.prems show ?thesis by simp
  next
    case (Some layer)
    obtain o1 c1 where f: "validate_features project of_bigint input
        (map_of (layers mvtDecoded) name) 0 layer = (o1, c1)"
      by (cases "validate_features project of_bigint input (map_of (layers mvtDecoded) name) 0 layer")
    obtain o2 c2 where r: "validate_layers project of_bigint input decoded mvtDecoded
        (Suc count) names = (o2, c2)"
      by (cases "validate_layers project of_bigint input decoded mvtDecoded (Suc count) names")
    from Cons.prems have "c2 = Normal c"
      unfolding validate_layers_step [OF Some] f r by (cases c1) simp_all
    with r Cons.IH [of "Suc count" o2] show ?thesis by simp
  qed
qed

subsection \<open>The examples, evaluated\<close>

lemmas example_defs = one_building_mlt_def one_building_mvt_def three_building_mvt_def
  building_road_mvt_def polygon_building_mvt_def no_layers_mlt_def mlt_feature_def mvt_feature_def
  pair_project_def bing_input_def

lemma ToString_nat_0: "ToString_nat 0 = ''0''"
  by code_simp

lemma validate_one_building: "validate one_building_mlt one_building_mvt pair_project Num bing_input = ([], Normal ())"
  by (simp add: validate_def example_defs Object_keys_def featureKeys_def mvtFeatureKeys_def
      toGeoJSON_def console_assert_def)

lemma validate_polygon_building: "validate one_building_mlt polygon_building_mvt pair_project Num bing_input =
   ([Stderr ''Assertion failed: Geometry type mismatch for bing/4-8-5 0''], Normal ())"
  by (simp add: validate_def example_defs Object_keys_def featureKeys_def mvtFeatureKeys_def
      toGeoJSON_def console_assert_def ToString_nat_0)

lemma validate_no_layers: "validate no_layers_mlt one_building_mvt pair_project Num bing_input =
   ([Stderr ''Assertion failed: Validation count mismatch for bing/4-8-5''], Normal ())"
  by (simp add: validate_def example_defs Object_keys_def console_assert_def)


lemma pass_count_one_building: "pass_count loadGeometry (one_building_mlt k b m) = 1"
  by (simp add: pass_count_def traverse_def one_building_mlt_def Object_keys_def)

lemma ToString_nat_1: "ToString_nat (Suc 0) = ''1''"
  by code_simp

lemma load_bing: "load every_file unit_metadata decimal_Number ''bing/4-8-5'' = Inr bing_input"
  by (simp add: load_def every_file_def decimal_Number_def bing_input_def)

lemma bing_fields:
  "tile bing_input = ''bing/4-8-5''"
  "tableMeta bing_input = ()"
  by (simp_all add: bing_input_def)

lemma scenario_one_building:
  "run_scenario t loadGeometry (\<lambda>k. one_building_mlt k b m) (Suc 0) =
     ([], Normal \<lparr>opts = Some 1, calls = 5\<rparr>)"
  by (simp add: run_scenario_def repeat_fn_flat IN_LOOP_ITERATIONS_def numeral_eq_Suc
      inner_loop_first inner_loop_recorded pass_count_one_building del: inner_loop.simps)

lemma runSuite_one_building:
  "runSuite validate_and_mlt once name_only one_building_mlt VectorTile pair_project Num bing_input =
     ([Stdout ''MLT -> loadGeo bing/4-8-5'',
       Stdout ''  Total MLT features(loadGeometry) processed: 1''],
      Normal ())"
  by (simp add: runSuite_def Let_def benchmark_def bind_effect_def validate_and_mlt_def once_def
      name_only_def total_line_def string_of_opts_def scenario_one_building bing_fields
      ToString_nat_1)

lemma pass_count_one_building_mvt:
  "pass_count (\<lambda>feature. mvt_loadGeometry feature ()) (one_building_mvt k b) = 1"
  by (simp add: pass_count_def traverse_def one_building_mvt_def Object_keys_def)

lemma scenario_one_building_mvt:
  "run_scenario t (\<lambda>feature. mvt_loadGeometry feature ()) (\<lambda>k. one_building_mvt k b) (Suc 0) =
     ([], Normal \<lparr>opts = Some 1, calls = 5\<rparr>)"
  by (simp add: run_scenario_def repeat_fn_flat IN_LOOP_ITERATIONS_def numeral_eq_Suc
      inner_loop_first inner_loop_recorded pass_count_one_building_mvt del: inner_loop.simps)

lemma runSuite_one_building_mvt:
  "runSuite validate_and_mvt once name_only decodeMlTile one_building_mvt pair_project Num bing_input =
     ([Stdout ''MVT -> loadGeo bing/4-8-5'',
       Stdout ''  Total MVT features(loadGeometry) processed: 1''],
      Normal ())"
  by (simp add: runSuite_def Let_def benchmark_def bind_effect_def validate_and_mvt_def once_def
      name_only_def total_line_def string_of_opts_def scenario_one_building_mvt bing_fields
      ToString_nat_1)

subsection \<open>Assertions that only print\<close>

text \<open>
  C2. The claim is that a difference of geometry type between the two GeoJSON projections
  of a feature pair aborts validation with a non-zero exit. The code evaluated on a tile
  whose only feature is a \<open>Point\<close> on the MLT side and a \<open>Polygon\<close> on the MVT side:
  the assertion prints its message, validation goes on and passes, and the benchmark runs.
\<close>

theorem geometry_mismatch_does_not_abort:
  "runSuites validate_and_mlt every_file unit_metadata decimal_Number once name_only
     one_building_mlt polygon_building_mvt pair_project Num [''bing/4-8-5''] =
   ([Stdout ''Validating result for bing/4-8-5'',
     Stderr ''Assertion failed: Geometry type mismatch for bing/4-8-5 0'',
     Stdout (passed_prefix @ ''bing/4-8-5''),
     Stdout ''Running benchmarks for bing/4-8-5'',
     Stdout ''MLT -> loadGeo bing/4-8-5'',
     Stdout ''  Total MLT features(loadGeometry) processed: 1''],
    Normal ())"
proof -
  have w: "willValidate validate_and_mlt"
    by (simp add: validate_and_mlt_def)
  show ?thesis
    by (simp add: runSuites_def bind_effect_def load_bing validate_polygon_building runSuite_one_building w bing_fields)
qed

text \<open>
  C3. The claim is that a validation that processed no layer fails with a non-zero exit.
  The code evaluated on a tile whose MLT decode has no layer: the layer counter stays 0, the
  assertion prints its message, the tile is reported as passed and the benchmark runs.
\<close>

theorem empty_validation_does_not_abort:
  "runSuites validate_and_mvt every_file unit_metadata decimal_Number once name_only
     no_layers_mlt one_building_mvt pair_project Num [''bing/4-8-5''] =
   ([Stdout ''Validating result for bing/4-8-5'',
     Stderr ''Assertion failed: Validation count mismatch for bing/4-8-5'',
     Stdout (passed_prefix @ ''bing/4-8-5''),
     Stdout ''Running benchmarks for bing/4-8-5'',
     Stdout ''MVT -> loadGeo bing/4-8-5'',
     Stdout ''  Total MVT features(loadGeometry) processed: 1''],
    Normal ())"
proof -
  have w: "willValidate validate_and_mvt"
    by (simp add: validate_and_mvt_def)
  show ?thesis
    by (simp add: runSuites_def bind_effect_def load_bing validate_no_layers runSuite_one_building_mvt w bing_fields)
qed


subsection \<open>Which layers and which features are compared\<close>

lemma validate_prefix_cong:
  assumes "\<forall>name\<in>set (Object_keys (layers (decodeMlTile 0 (mltTile input) (tableMeta input)))).
      \<forall>layer. map_of (layers (decodeMlTile 0 (mltTile input) (tableMeta input))) name = Some layer \<longrightarrow>
        map_option (take (length layer)) (map_of (layers (VectorTile 0 (mvtTile input))) name) =
        map_option (take (length layer)) (map_of (layers (VectorTile' 0 (mvtTile input))) name)"
  shows "validate decodeMlTile VectorTile project of_bigint input =
         validate decodeMlTile VectorTile' project of_bigint input"
proof -
  let ?decoded = "decodeMlTile 0 (mltTile input) (tableMeta input)"
  have "validate_layers project of_bigint input ?decoded (VectorTile 0 (mvtTile input)) 0
          (js_sort (Object_keys (layers ?decoded))) =
        validate_layers project of_bigint input ?decoded (VectorTile' 0 (mvtTile input)) 0
          (js_sort (Object_keys (layers ?decoded)))"
    by (rule validate_layers_prefix_cong) (use assms in simp)
  then show ?thesis
    by (simp only: validate_def Let_def)
qed

text \<open>
  C10. In every layer the validator compares the features at the indices below the MLT
  layer's feature count only: two MVT decodes that agree, for each MLT layer, on the
  presence of the layer and on its first features up to that count give the same
  validation. So validation can pass when the MVT layer has more features than the MLT
  layer, as for the tile with one MLT and three MVT features in \<open>building\<close>.
\<close>

theorem features_beyond_mlt_count_not_examined:
  "((\<forall>name\<in>set (Object_keys (layers (decodeMlTile 0 (mltTile input) (tableMeta input)))).
      \<forall>layer. map_of (layers (decodeMlTile 0 (mltTile input) (tableMeta input))) name = Some layer \<longrightarrow>
        map_option (take (length layer)) (map_of (layers (VectorTile 0 (mvtTile input))) name) =
        map_option (take (length layer)) (map_of (layers (VectorTile' 0 (mvtTile input))) name))
    \<longrightarrow> validate decodeMlTile VectorTile project of_bigint input =
        validate decodeMlTile VectorTile' project of_bigint input)
   \<and> (\<exists>layer mvtLayer.
        map_of (layers (one_building_mlt 0 (mltTile bing_input) (tableMeta bing_input))) ''building''
          = Some layer
        \<and> map_of (layers (three_building_mvt 0 (mvtTile bing_input))) ''building'' = Some mvtLayer
        \<and> length layer < length mvtLayer
        \<and> validate one_building_mlt three_building_mvt pair_project Num bing_input =
            ([], Normal ()))"
proof (intro conjI impI)
  assume "\<forall>name\<in>set (Object_keys (layers (decodeMlTile 0 (mltTile input) (tableMeta input)))).
      \<forall>layer. map_of (layers (decodeMlTile 0 (mltTile input) (tableMeta input))) name = Some layer \<longrightarrow>
        map_option (take (length layer)) (map_of (layers (VectorTile 0 (mvtTile input))) name) =
        map_option (take (length layer)) (map_of (layers (VectorTile' 0 (mvtTile input))) name)"
  then show "validate decodeMlTile VectorTile project of_bigint input =
        validate decodeMlTile VectorTile' project of_bigint input"
    by (rule validate_prefix_cong)
next
  have "validate one_building_mlt three_building_mvt pair_project Num bing_input =
        validate one_building_mlt one_building_mvt pair_project Num bing_input"
    by (rule validate_prefix_cong)
      (simp add: one_building_mlt_def three_building_mvt_def one_building_mvt_def Object_keys_def)
  then have "validate one_building_mlt three_building_mvt pair_project Num bing_input =
      ([], Normal ())"
    by (simp only: validate_one_building)
  then show "\<exists>layer mvtLayer.
        map_of (layers (one_building_mlt 0 (mltTile bing_input) (tableMeta bing_input))) ''building''
          = Some layer
        \<and> map_of (layers (three_building_mvt 0 (mvtTile bing_input))) ''building'' = Some mvtLayer
        \<and> length layer < length mvtLayer
        \<and> validate one_building_mlt three_building_mvt pair_project Num bing_input =
            ([], Normal ())"
    by (simp add: one_building_mlt_def three_building_mvt_def)
qed

theorem features_beyond_mlt_count_not_examined_witness:
  "validate one_building_mlt three_building_mvt pair_project Num bing_input =
   validate one_building_mlt one_building_mvt pair_project Num bing_input"
  using features_beyond_mlt_count_not_examined
    [of one_building_mlt bing_input three_building_mvt one_building_mvt pair_project Num]
  by (simp add: one_building_mlt_def three_building_mvt_def one_building_mvt_def Object_keys_def)

lemma validate_layers_Cons_layer:
  "validate_layers project of_bigint input decoded mvtDecoded count (name # names) =
     (case validate_layer project of_bigint input decoded mvtDecoded name of
        (out, Normal u) \<Rightarrow>
          (out @ fst (validate_layers project of_bigint input decoded mvtDecoded (Suc count) names),
           snd (validate_layers project of_bigint input decoded mvtDecoded (Suc count) names))
      | (out, Exit code) \<Rightarrow> (out, Exit code)
      | (out, Thrown) \<Rightarrow> (out, Thrown))"
proof (cases "map_of (layers decoded) name")
  case None
  then show ?thesis by (simp add: validate_layer_def)
next
  case (Some layer)
  show ?thesis
    by (simp only: validate_layers_step [OF Some] validate_layer_def Some option.case)
qed

lemma validate_layers_all_Normal:
  assumes "\<forall>n\<in>set names. snd (validate_layer project of_bigint input decoded mvtDecoded n) = Normal ()"
  shows "validate_layers project of_bigint input decoded mvtDecoded count names =
     (concat (map (\<lambda>n. fst (validate_layer project of_bigint input decoded mvtDecoded n)) names),
      Normal (count + length names))"
  using assms
proof (induction names arbitrary: count)
  case Nil
  then show ?case by simp
next
  case (Cons name names)
  obtain o1 where l: "validate_layer project of_bigint input decoded mvtDecoded name = (o1, Normal ())"
    using Cons.prems by (cases "validate_layer project of_bigint input decoded mvtDecoded name") simp
  have r: "validate_layers project of_bigint input decoded mvtDecoded (Suc count) names =
     (concat (map (\<lambda>n. fst (validate_layer project of_bigint input decoded mvtDecoded n)) names),
      Normal (Suc count + length names))"
    using Cons.IH [of "Suc count"] Cons.prems by simp
  show ?case
    unfolding validate_layers_Cons_layer l r by (simp add: l)
qed

lemma validate_layers_stops:
  assumes "\<forall>n\<in>set before. snd (validate_layer project of_bigint input decoded mvtDecoded n) = Normal ()"
    and "snd (validate_layer project of_bigint input decoded mvtDecoded name) \<noteq> Normal ()"
  shows "validate_layers project of_bigint input decoded mvtDecoded count (before @ name # after) =
     (concat (map (\<lambda>n. fst (validate_layer project of_bigint input decoded mvtDecoded n)) before)
        @ fst (validate_layer project of_bigint input decoded mvtDecoded name),
      map_completion (\<lambda>u. count) (snd (validate_layer project of_bigint input decoded mvtDecoded name)))"
  using assms(1)
proof (induction before arbitrary: count)
  case Nil
  obtain o1 c1 where l: "validate_layer project of_bigint input decoded mvtDecoded name = (o1, c1)"
    by (cases "validate_layer project of_bigint input decoded mvtDecoded name")
  with assms(2) have "c1 \<noteq> Normal ()" by simp
  then show ?case
    unfolding append_Nil validate_layers_Cons_layer l by (cases c1) simp_all
next
  case (Cons b before)
  obtain o1 where l: "validate_layer project of_bigint input decoded mvtDecoded b = (o1, Normal ())"
    using Cons.prems by (cases "validate_layer project of_bigint input decoded mvtDecoded b") simp
  obtain o2 c2 where n: "validate_layer project of_bigint input decoded mvtDecoded name = (o2, c2)"
    by (cases "validate_layer project of_bigint input decoded mvtDecoded name")
  with assms(2) have c2: "c2 \<noteq> Normal ()" by simp
  have r: "validate_layers project of_bigint input decoded mvtDecoded (Suc count) (before @ name # after) =
     (concat (map (\<lambda>n. fst (validate_layer project of_bigint input decoded mvtDecoded n)) before)
        @ fst (validate_layer project of_bigint input decoded mvtDecoded name),
      map_completion (\<lambda>u. Suc count) (snd (validate_layer project of_bigint input decoded mvtDecoded name)))"
    using Cons.IH [of "Suc count"] Cons.prems by simp
  show ?case
    unfolding append_Cons validate_layers_Cons_layer l r n using c2 by (cases c2) (simp_all add: l n)
qed


lemma validate_by_layer:
  fixes decodeMlTile VectorTile project of_bigint input
  defines "decoded \<equiv> decodeMlTile 0 (mltTile input) (tableMeta input)"
    and "mvtDecoded \<equiv> VectorTile 0 (mvtTile input)"
  defines "names \<equiv> js_sort (Object_keys (layers decoded))"
    and "result \<equiv> validate_layer project of_bigint input decoded mvtDecoded"
  shows "(\<forall>n\<in>set names. snd (result n) = Normal ()) \<Longrightarrow>
      validate decodeMlTile VectorTile project of_bigint input =
        (concat (map (\<lambda>n. fst (result n)) names)
           @ console_assert (0 < length names) (''Validation count mismatch for '' @ tile input),
         Normal ())"
    and "names = before @ name # after \<Longrightarrow>
      (\<forall>n\<in>set before. snd (result n) = Normal ()) \<Longrightarrow>
      snd (result name) \<noteq> Normal () \<Longrightarrow>
      validate decodeMlTile VectorTile project of_bigint input =
        (concat (map (\<lambda>n. fst (result n)) before) @ fst (result name), snd (result name))"
proof -
  assume "\<forall>n\<in>set names. snd (result n) = Normal ()"
  then have "validate_layers project of_bigint input decoded mvtDecoded 0 names =
      (concat (map (\<lambda>n. fst (result n)) names), Normal (0 + length names))"
    unfolding result_def by (rule validate_layers_all_Normal)
  then show "validate decodeMlTile VectorTile project of_bigint input =
        (concat (map (\<lambda>n. fst (result n)) names)
           @ console_assert (0 < length names) (''Validation count mismatch for '' @ tile input),
         Normal ())"
    unfolding validate_def Let_def decoded_def [symmetric] mvtDecoded_def [symmetric]
      names_def [symmetric]
    by simp
next
  assume split: "names = before @ name # after"
    and ok: "\<forall>n\<in>set before. snd (result n) = Normal ()"
    and stop: "snd (result name) \<noteq> Normal ()"
  have l: "validate_layers project of_bigint input decoded mvtDecoded 0 (before @ name # after) =
      (concat (map (\<lambda>n. fst (result n)) before) @ fst (result name),
       map_completion (\<lambda>u. 0) (snd (result name)))"
    using ok stop unfolding result_def by (rule validate_layers_stops)
  show "validate decodeMlTile VectorTile project of_bigint input =
        (concat (map (\<lambda>n. fst (result n)) before) @ fst (result name), snd (result name))"
    unfolding validate_def Let_def decoded_def [symmetric] mvtDecoded_def [symmetric]
      names_def [symmetric] split l
    using stop by (cases "snd (result name)") simp_all
qed


lemma validate_layer_building:
  "validate_layer pair_project Num bing_input
     (road_building_mlt k b m)
     (water_road_building_mvt k' b') ''building'' =
   ([Stderr ''Assertion failed: Geometry type mismatch for bing/4-8-5 0''], Normal ())"
  by (simp add: validate_layer_def road_building_mlt_def water_road_building_mvt_def
      mlt_feature_def mvt_feature_def pair_project_def bing_input_def Object_keys_def
      featureKeys_def mvtFeatureKeys_def toGeoJSON_def console_assert_def ToString_nat_0)

lemma validate_layer_road:
  "validate_layer pair_project Num bing_input
     (road_building_mlt k b m)
     (water_road_building_mvt k' b') ''road'' =
   (key_set_diagnostic ''bing/4-8-5'' 0 [''class''] [''kind''], Exit 1)"
proof -
  have ne: "JSON_stringify [''class''] \<noteq> JSON_stringify [''kind'']"
    using JSON_stringify_inj by fastforce
  show ?thesis
    by (simp add: validate_layer_def road_building_mlt_def water_road_building_mvt_def
      mlt_feature_def mvt_feature_def pair_project_def bing_input_def Object_keys_def
      featureKeys_def mvtFeatureKeys_def toGeoJSON_def console_assert_def key_set_diagnostic_def ne)
qed

text \<open>
  C5, as the code has it. The validator iterates over the layer names of the MLT decode,
  all of them and in the order of \<^verbatim>\<open>sort()\<close>, and takes the MVT layer of each from
  the MVT decode by name. The names it uses are those of the MLT decode, as many, sorted
  by code units. When every layer validates, the output of the validation is the outputs
  of the layers in that order, then the check of the counter. Otherwise the validation ends
  at the first name in that order whose layer does not validate, with the outputs of the
  layers before it, then the output and the outcome of that layer. MVT layers under other
  names have no influence.
\<close>

theorem validator_iterates_mlt_layer_names:
  "let decoded = decodeMlTile 0 (mltTile input) (tableMeta input);
       mvtDecoded = VectorTile 0 (mvtTile input);
       names = js_sort (Object_keys (layers decoded));
       result = validate_layer project of_bigint input decoded mvtDecoded
   in set names = set (Object_keys (layers decoded))
      \<and> length names = length (layers decoded)
      \<and> sorted (map (map code_unit_rank) names)
      \<and> ((\<forall>n\<in>set names. snd (result n) = Normal ()) \<longrightarrow>
           validate decodeMlTile VectorTile project of_bigint input =
             (concat (map (\<lambda>n. fst (result n)) names)
                @ console_assert (0 < length names)
                    (''Validation count mismatch for '' @ tile input),
              Normal ()))
      \<and> (\<forall>before name after.
           names = before @ name # after
           \<and> (\<forall>n\<in>set before. snd (result n) = Normal ())
           \<and> snd (result name) \<noteq> Normal () \<longrightarrow>
           validate decodeMlTile VectorTile project of_bigint input =
             (concat (map (\<lambda>n. fst (result n)) before) @ fst (result name),
              snd (result name)))
      \<and> ((\<forall>n\<in>set names.
             map_of (layers mvtDecoded) n = map_of (layers (VectorTile' 0 (mvtTile input))) n) \<longrightarrow>
           validate decodeMlTile VectorTile project of_bigint input =
           validate decodeMlTile VectorTile' project of_bigint input)"
  unfolding Let_def
proof (intro conjI impI allI)
  show "set (js_sort (Object_keys (layers (decodeMlTile 0 (mltTile input) (tableMeta input))))) =
      set (Object_keys (layers (decodeMlTile 0 (mltTile input) (tableMeta input))))"
    by simp
next
  show "length (js_sort (Object_keys (layers (decodeMlTile 0 (mltTile input) (tableMeta input))))) =
      length (layers (decodeMlTile 0 (mltTile input) (tableMeta input)))"
    by (simp add: Object_keys_def)
next
  show "sorted (map (map code_unit_rank)
      (js_sort (Object_keys (layers (decodeMlTile 0 (mltTile input) (tableMeta input))))))"
    by (rule sorted_js_sort)
next
  assume "\<forall>n\<in>set (js_sort (Object_keys (layers (decodeMlTile 0 (mltTile input) (tableMeta input))))).
      snd (validate_layer project of_bigint input (decodeMlTile 0 (mltTile input) (tableMeta input))
             (VectorTile 0 (mvtTile input)) n) = Normal ()"
  then show "validate decodeMlTile VectorTile project of_bigint input =
      (concat (map (\<lambda>n. fst (validate_layer project of_bigint input
                               (decodeMlTile 0 (mltTile input) (tableMeta input))
                               (VectorTile 0 (mvtTile input)) n))
                 (js_sort (Object_keys (layers (decodeMlTile 0 (mltTile input) (tableMeta input))))))
         @ console_assert
             (0 < length (js_sort (Object_keys (layers (decodeMlTile 0 (mltTile input) (tableMeta input))))))
             (''Validation count mismatch for '' @ tile input),
       Normal ())"
    by (rule validate_by_layer(1))
next
  fix before name after
  assume a: "js_sort (Object_keys (layers (decodeMlTile 0 (mltTile input) (tableMeta input)))) =
        before @ name # after
      \<and> (\<forall>n\<in>set before.
           snd (validate_layer project of_bigint input (decodeMlTile 0 (mltTile input) (tableMeta input))
                  (VectorTile 0 (mvtTile input)) n) = Normal ())
      \<and> snd (validate_layer project of_bigint input (decodeMlTile 0 (mltTile input) (tableMeta input))
                (VectorTile 0 (mvtTile input)) name) \<noteq> Normal ()"
  show "validate decodeMlTile VectorTile project of_bigint input =
      (concat (map (\<lambda>n. fst (validate_layer project of_bigint input
                               (decodeMlTile 0 (mltTile input) (tableMeta input))
                               (VectorTile 0 (mvtTile input)) n)) before)
         @ fst (validate_layer project of_bigint input (decodeMlTile 0 (mltTile input) (tableMeta input))
                  (VectorTile 0 (mvtTile input)) name),
       snd (validate_layer project of_bigint input (decodeMlTile 0 (mltTile input) (tableMeta input))
              (VectorTile 0 (mvtTile input)) name))"
    using a by (intro validate_by_layer(2)) simp_all
next
  assume "\<forall>n\<in>set (js_sort (Object_keys (layers (decodeMlTile 0 (mltTile input) (tableMeta input))))).
      map_of (layers (VectorTile 0 (mvtTile input))) n =
      map_of (layers (VectorTile' 0 (mvtTile input))) n"
  then show "validate decodeMlTile VectorTile project of_bigint input =
      validate decodeMlTile VectorTile' project of_bigint input"
    by (intro validate_prefix_cong) simp
qed

theorem validator_iterates_mlt_layer_names_witness:
  "validate road_building_mlt water_road_building_mvt pair_project Num bing_input =
     (Stderr ''Assertion failed: Geometry type mismatch for bing/4-8-5 0''
        # key_set_diagnostic ''bing/4-8-5'' 0 [''class''] [''kind''],
      Exit 1)
   \<and> validate one_building_mlt building_road_mvt pair_project Num bing_input =
     validate one_building_mlt one_building_mvt pair_project Num bing_input
   \<and> validate one_building_mlt one_building_mvt pair_project Num bing_input = ([], Normal ())"
proof -
  note two = validator_iterates_mlt_layer_names
    [of road_building_mlt bing_input water_road_building_mvt pair_project Num
        water_road_building_mvt, unfolded Let_def]
  have names: "js_sort (Object_keys (layers
      (road_building_mlt 0 (mltTile bing_input) (tableMeta bing_input)))) =
      [''building''] @ ''road'' # []"
    by (simp add: road_building_mlt_def Object_keys_def js_sort_eval)
  have before: "\<forall>n\<in>set [''building''].
      snd (validate_layer pair_project Num bing_input
        (road_building_mlt 0 (mltTile bing_input) (tableMeta bing_input))
        (water_road_building_mvt 0 (mvtTile bing_input)) n) = Normal ()"
    by (simp add: validate_layer_building)
  have stop: "snd (validate_layer pair_project Num bing_input
        (road_building_mlt 0 (mltTile bing_input) (tableMeta bing_input))
        (water_road_building_mvt 0 (mvtTile bing_input)) ''road'') \<noteq> Normal ()"
    by (simp add: validate_layer_road)
  from two names before stop
  have "validate road_building_mlt water_road_building_mvt pair_project Num bing_input =
      (concat (map (\<lambda>n. fst (validate_layer pair_project Num bing_input
                               (road_building_mlt 0 (mltTile bing_input) (tableMeta bing_input))
                               (water_road_building_mvt 0 (mvtTile bing_input)) n)) [''building''])
         @ fst (validate_layer pair_project Num bing_input
                  (road_building_mlt 0 (mltTile bing_input) (tableMeta bing_input))
                  (water_road_building_mvt 0 (mvtTile bing_input)) ''road''),
       snd (validate_layer pair_project Num bing_input
              (road_building_mlt 0 (mltTile bing_input) (tableMeta bing_input))
              (water_road_building_mvt 0 (mvtTile bing_input)) ''road''))"
    by blast
  then have 1: "validate road_building_mlt water_road_building_mvt pair_project Num bing_input =
     (Stderr ''Assertion failed: Geometry type mismatch for bing/4-8-5 0''
        # key_set_diagnostic ''bing/4-8-5'' 0 [''class''] [''kind''],
      Exit 1)"
    by (simp add: validate_layer_building validate_layer_road)
  note one = validator_iterates_mlt_layer_names
    [of one_building_mlt bing_input building_road_mvt pair_project Num one_building_mvt,
      unfolded Let_def]
  have same: "\<forall>n\<in>set (js_sort (Object_keys (layers
        (one_building_mlt 0 (mltTile bing_input) (tableMeta bing_input))))).
      map_of (layers (building_road_mvt 0 (mvtTile bing_input))) n =
      map_of (layers (one_building_mvt 0 (mvtTile bing_input))) n"
    by (simp add: one_building_mlt_def building_road_mvt_def one_building_mvt_def Object_keys_def)
  from one same
  have 2: "validate one_building_mlt building_road_mvt pair_project Num bing_input =
     validate one_building_mlt one_building_mvt pair_project Num bing_input"
    by blast
  note pass = validator_iterates_mlt_layer_names
    [of one_building_mlt bing_input one_building_mvt pair_project Num one_building_mvt,
      unfolded Let_def]
  have l: "\<And>k b m k' b'. validate_layer pair_project Num bing_input
        (one_building_mlt k b m) (one_building_mvt k' b') ''building'' = ([], Normal ())"
    by (simp add: validate_layer_def example_defs Object_keys_def featureKeys_def
        mvtFeatureKeys_def toGeoJSON_def console_assert_def)
  have n1: "js_sort (Object_keys (layers
      (one_building_mlt 0 (mltTile bing_input) (tableMeta bing_input)))) = [''building'']"
    by (simp add: one_building_mlt_def Object_keys_def)
  have allok: "\<forall>n\<in>set (js_sort (Object_keys (layers
        (one_building_mlt 0 (mltTile bing_input) (tableMeta bing_input))))).
      snd (validate_layer pair_project Num bing_input
        (one_building_mlt 0 (mltTile bing_input) (tableMeta bing_input))
        (one_building_mvt 0 (mvtTile bing_input)) n) = Normal ()"
  proof -
    have "Object_keys (layers (one_building_mlt 0 (mltTile bing_input) (tableMeta bing_input))) =
        [''building'']"
      by (simp add: one_building_mlt_def Object_keys_def)
    then show ?thesis
      by (simp add: l)
  qed
  from pass allok
  have "validate one_building_mlt one_building_mvt pair_project Num bing_input =
      (concat (map (\<lambda>n. fst (validate_layer pair_project Num bing_input
                               (one_building_mlt 0 (mltTile bing_input) (tableMeta bing_input))
                               (one_building_mvt 0 (mvtTile bing_input)) n))
                 (js_sort (Object_keys (layers
                    (one_building_mlt 0 (mltTile bing_input) (tableMeta bing_input))))))
         @ console_assert
             (0 < length (js_sort (Object_keys (layers
                    (one_building_mlt 0 (mltTile bing_input) (tableMeta bing_input))))))
             (''Validation count mismatch for '' @ tile bing_input),
       Normal ())"
    by blast
  from this [unfolded n1]
  have 3: "validate one_building_mlt one_building_mvt pair_project Num bing_input = ([], Normal ())"
    by (simp add: l console_assert_def)
  from 1 2 3 show ?thesis by blast
qed

text \<open>
  C5, as stated, fails: for an MLT decode with the layer \<open>building\<close> and an MVT decode
  with the layers \<open>building\<close> and \<open>road\<close>, the loop of the validator over its layer names
  ends with the counter at 1 and the validation passes; over the sorted layer names of the
  MVT decode the same loop would throw at \<open>road\<close>, which the MLT decode does not have.
\<close>

theorem layer_names_from_mvt_counterexample:
  "js_sort (Object_keys (layers (building_road_mvt 0 (mvtTile bing_input)))) = [''building'', ''road'']
   \<and> validate_layers pair_project Num bing_input
        (one_building_mlt 0 (mltTile bing_input) (tableMeta bing_input))
        (building_road_mvt 0 (mvtTile bing_input)) 0
        (js_sort (Object_keys (layers (one_building_mlt 0 (mltTile bing_input) (tableMeta bing_input)))))
      = ([], Normal 1)
   \<and> validate_layers pair_project Num bing_input
        (one_building_mlt 0 (mltTile bing_input) (tableMeta bing_input))
        (building_road_mvt 0 (mvtTile bing_input)) 0
        (js_sort (Object_keys (layers (building_road_mvt 0 (mvtTile bing_input)))))
      = ([], Thrown)
   \<and> validate one_building_mlt building_road_mvt pair_project Num bing_input = ([], Normal ())"
  by (simp add: validate_def example_defs Object_keys_def js_sort_eval featureKeys_def mvtFeatureKeys_def
      toGeoJSON_def console_assert_def)


subsection \<open>The id workaround\<close>

lemma mvtFeatureKeys_remove1:
  "mvtFeatureKeys mvtFeature = remove1 ''id'' (js_sort (Object_keys (mvt_properties mvtFeature)))"
  by (simp add: mvtFeatureKeys_def Let_def remove1_idem)

lemma id_not_in_mvtFeatureKeys:
  "distinct (Object_keys (mvt_properties mvtFeature)) \<Longrightarrow> ''id'' \<notin> set (mvtFeatureKeys mvtFeature)"
  by (simp add: mvtFeatureKeys_remove1)

text \<open>
  C6, as the code has it. An \<open>id\<close> key is removed from the sorted keys of the MVT
  feature whenever it occurs there, whatever the MLT feature's keys are; without it the MVT
  keys are left as sorted, and the keys of the MLT feature are never altered. So a pair in
  which the MLT feature has an \<open>id\<close> key fails the comparison, also when the MVT feature
  has one too.
\<close>

theorem id_removed_whenever_on_reference_side:
  "(''id'' \<in> set (Object_keys (mvt_properties mvtFeature)) \<longrightarrow>
      mvtFeatureKeys mvtFeature = remove1 ''id'' (js_sort (Object_keys (mvt_properties mvtFeature))))
   \<and> (''id'' \<notin> set (Object_keys (mvt_properties mvtFeature)) \<longrightarrow>
      mvtFeatureKeys mvtFeature = js_sort (Object_keys (mvt_properties mvtFeature)))
   \<and> featureKeys feature = js_sort (Object_keys (properties feature))
   \<and> (''id'' \<in> set (Object_keys (properties feature))
        \<and> distinct (Object_keys (mvt_properties mvtFeature))
        \<and> js_index mvtFeatures i = Some mvtFeature \<longrightarrow>
      snd (validate_features project of_bigint input (Some mvtFeatures) i (feature # rest)) = Exit 1)"
proof (intro conjI impI)
  show "featureKeys feature = js_sort (Object_keys (properties feature))"
    by (simp add: featureKeys_def)
next
  assume "''id'' \<in> set (Object_keys (mvt_properties mvtFeature))"
  show "mvtFeatureKeys mvtFeature = remove1 ''id'' (js_sort (Object_keys (mvt_properties mvtFeature)))"
    by (rule mvtFeatureKeys_remove1)
next
  assume "''id'' \<notin> set (Object_keys (mvt_properties mvtFeature))"
  then show "mvtFeatureKeys mvtFeature = js_sort (Object_keys (mvt_properties mvtFeature))"
    by (simp add: mvtFeatureKeys_def)
next
  assume a: "''id'' \<in> set (Object_keys (properties feature))
        \<and> distinct (Object_keys (mvt_properties mvtFeature))
        \<and> js_index mvtFeatures i = Some mvtFeature"
  then have "''id'' \<in> set (featureKeys feature)"
    by (simp add: featureKeys_def)
  moreover from a have "''id'' \<notin> set (mvtFeatureKeys mvtFeature)"
    by (simp add: id_not_in_mvtFeatureKeys)
  ultimately have differ: "featureKeys feature \<noteq> mvtFeatureKeys mvtFeature"
    by metis
  from a have ix: "js_index mvtFeatures i = Some mvtFeature"
    by simp
  show "snd (validate_features project of_bigint input (Some mvtFeatures) i (feature # rest)) = Exit 1"
    by (simp only: validate_features_mismatch [OF ix differ] snd_conv)
qed

theorem id_removed_whenever_on_reference_side_witness:
  "mvtFeatureKeys (mvt_feature ''Point'' [''name'', ''id'']) = [''name'']
   \<and> mvtFeatureKeys (mvt_feature ''Point'' [''name'']) = [''name'']
   \<and> snd (validate_features pair_project Num bing_input
        (Some [mvt_feature ''Point'' [''name'', ''id'']]) 0 [mlt_feature [''id'', ''name'']]) = Exit 1"
proof -
  note with_id = id_removed_whenever_on_reference_side
      [of "mvt_feature ''Point'' [''name'', ''id'']" "mlt_feature [''id'', ''name'']"
        "[mvt_feature ''Point'' [''name'', ''id'']]" 0 pair_project Num bing_input "[]"]
  note without_id = id_removed_whenever_on_reference_side
      [of "mvt_feature ''Point'' [''name'']" "mlt_feature [''id'', ''name'']"
        "[mvt_feature ''Point'' [''name'']]" 0 pair_project Num bing_input "[]"]
  have present: "''id'' \<in> set (Object_keys (mvt_properties (mvt_feature ''Point'' [''name'', ''id''])))"
    by (simp add: mvt_feature_def Object_keys_def)
  have absent: "''id'' \<notin> set (Object_keys (mvt_properties (mvt_feature ''Point'' [''name''])))"
    by (simp add: mvt_feature_def Object_keys_def)
  have both: "''id'' \<in> set (Object_keys (properties (mlt_feature [''id'', ''name''])))
      \<and> distinct (Object_keys (mvt_properties (mvt_feature ''Point'' [''name'', ''id''])))
      \<and> js_index [mvt_feature ''Point'' [''name'', ''id'']] 0 = Some (mvt_feature ''Point'' [''name'', ''id''])"
    by (simp add: mvt_feature_def mlt_feature_def Object_keys_def)
  from with_id present
  have "mvtFeatureKeys (mvt_feature ''Point'' [''name'', ''id'']) =
      remove1 ''id'' (js_sort (Object_keys (mvt_properties (mvt_feature ''Point'' [''name'', ''id'']))))"
    by blast
  then have 1: "mvtFeatureKeys (mvt_feature ''Point'' [''name'', ''id'']) = [''name'']"
    by (simp add: mvt_feature_def Object_keys_def js_sort_eval)
  from without_id absent
  have "mvtFeatureKeys (mvt_feature ''Point'' [''name'']) =
      js_sort (Object_keys (mvt_properties (mvt_feature ''Point'' [''name''])))"
    by blast
  then have 2: "mvtFeatureKeys (mvt_feature ''Point'' [''name'']) = [''name'']"
    by (simp add: mvt_feature_def Object_keys_def)
  from with_id both
  have 3: "snd (validate_features pair_project Num bing_input
        (Some [mvt_feature ''Point'' [''name'', ''id'']]) 0 [mlt_feature [''id'', ''name'']]) = Exit 1"
    by blast
  from 1 2 3 show ?thesis by blast
qed

text \<open>
  C6, as stated, fails: when both features have the keys \<open>id\<close> and \<open>name\<close>, the MVT key
  list is altered all the same, to \<open>name\<close> alone.
\<close>

theorem id_on_both_sides_counterexample:
  "featureKeys (mlt_feature [''id'', ''name'']) = [''id'', ''name'']
   \<and> js_sort (Object_keys (mvt_properties (mvt_feature ''Point'' [''id'', ''name''])))
       = [''id'', ''name'']
   \<and> mvtFeatureKeys (mvt_feature ''Point'' [''id'', ''name'']) = [''name'']"
  by (simp add: featureKeys_def mvtFeatureKeys_def mvt_feature_def mlt_feature_def Object_keys_def js_sort_eval)

subsection \<open>Key lists that differ\<close>

lemma js_index_Some_nth: "js_index xs i = Some x \<Longrightarrow> i < length xs \<and> xs ! i = x"
  by (induction xs i rule: js_index.induct) simp_all

lemma validate_features_mismatch_diag:
  assumes "js_index mvtFeatures i = Some mvtFeature"
    and "featureKeys feature \<noteq> mvtFeatureKeys mvtFeature"
  shows "validate_features project of_bigint input (Some mvtFeatures) i (feature # rest) =
     (console_assert (length (featureKeys feature) = length (mvtFeatureKeys mvtFeature))
        (''Feature keys mismatch for '' @ tile input) @
      key_set_diagnostic (tile input) i (featureKeys feature) (mvtFeatureKeys mvtFeature),
      Exit 1)"
  by (simp only: validate_features_mismatch [OF assms] key_set_diagnostic_def)

lemma validate_features_Exit:
  "validate_features project of_bigint input mvtLayer i fs = (out, Exit c) \<Longrightarrow>
   \<exists>pre j mfs. mvtLayer = Some mfs \<and> j < length fs \<and> i + j < length mfs
     \<and> featureKeys (fs ! j) \<noteq> mvtFeatureKeys (mfs ! (i + j))
     \<and> out = pre @ key_set_diagnostic (tile input) (i + j)
                       (featureKeys (fs ! j)) (mvtFeatureKeys (mfs ! (i + j)))
     \<and> c = 1"
proof (induction fs arbitrary: i out)
  case Nil
  then show ?case by simp
next
  case (Cons f fs)
  show ?case
  proof (cases mvtLayer)
    case None
    with Cons.prems show ?thesis by simp
  next
    case (Some mfs)
    note mfs = this
    show ?thesis
    proof (cases "js_index mfs i")
      case None
      with Cons.prems mfs show ?thesis by simp
    next
      case (Some mf)
      note mf = this
      from js_index_Some_nth [OF mf] have ix: "i < length mfs" "mfs ! i = mf"
        by simp_all
      show ?thesis
      proof (cases "featureKeys f = mvtFeatureKeys mf")
        case False
        let ?pre = "console_assert (length (featureKeys f) = length (mvtFeatureKeys mf))
                      (''Feature keys mismatch for '' @ tile input)"
        from Cons.prems [unfolded mfs validate_features_mismatch_diag [OF mf False]]
        have out: "out = ?pre @ key_set_diagnostic (tile input) i (featureKeys f) (mvtFeatureKeys mf)"
          and c: "c = 1"
          by simp_all
        have "mvtLayer = Some mfs \<and> 0 < length (f # fs) \<and> i + 0 < length mfs
          \<and> featureKeys ((f # fs) ! 0) \<noteq> mvtFeatureKeys (mfs ! (i + 0))
          \<and> out = ?pre @ key_set_diagnostic (tile input) (i + 0)
                       (featureKeys ((f # fs) ! 0)) (mvtFeatureKeys (mfs ! (i + 0)))
          \<and> c = 1"
          using mfs ix False out c by simp
        then show ?thesis by blast
      next
        case True
        let ?ca = "console_assert
                    (gtype (gj_geometry (toGeoJSON project of_bigint f
                       (tile_x input) (tile_y input) (tile_z input))) =
                     gtype (gj_geometry (mvt_toGeoJSON mf (tile_x input) (tile_y input) (tile_z input))))
                    (''Geometry type mismatch for '' @ tile input @ '' '' @ ToString_nat i)"
        obtain o' c' where rec: "validate_features project of_bigint input (Some mfs) (Suc i) fs = (o', c')"
          by (cases "validate_features project of_bigint input (Some mfs) (Suc i) fs")
        from Cons.prems [unfolded mfs validate_features_match [OF mf True] rec fst_conv snd_conv]
        have out: "out = ?ca @ o'" and c': "c' = Exit c"
          by simp_all
        from Cons.IH [of "Suc i" o'] rec c' mfs
        obtain pre j where j: "j < length fs" "Suc i + j < length mfs"
          "featureKeys (fs ! j) \<noteq> mvtFeatureKeys (mfs ! (Suc i + j))"
          "o' = pre @ key_set_diagnostic (tile input) (Suc i + j)
                       (featureKeys (fs ! j)) (mvtFeatureKeys (mfs ! (Suc i + j)))"
          "c = 1"
          by auto
        have "mvtLayer = Some mfs \<and> Suc j < length (f # fs) \<and> i + Suc j < length mfs
          \<and> featureKeys ((f # fs) ! Suc j) \<noteq> mvtFeatureKeys (mfs ! (i + Suc j))
          \<and> out = (?ca @ pre) @ key_set_diagnostic (tile input) (i + Suc j)
                       (featureKeys ((f # fs) ! Suc j)) (mvtFeatureKeys (mfs ! (i + Suc j)))
          \<and> c = 1"
          using mfs j out by simp
        then show ?thesis by blast
      qed
    qed
  qed
qed

lemma validate_features_Normal:
  "validate_features project of_bigint input (Some mfs) i fs = (out, Normal u) \<Longrightarrow>
   \<forall>j<length fs. i + j < length mfs \<and> featureKeys (fs ! j) = mvtFeatureKeys (mfs ! (i + j))"
proof (induction fs arbitrary: i out)
  case Nil
  then show ?case by simp
next
  case (Cons f fs)
  show ?case
  proof (cases "js_index mfs i")
    case None
    with Cons.prems show ?thesis by simp
  next
    case (Some mf)
    note mf = this
    from js_index_Some_nth [OF mf] have ix: "i < length mfs" "mfs ! i = mf"
      by simp_all
    have eq: "featureKeys f = mvtFeatureKeys mf"
    proof (rule ccontr)
      assume ne: "featureKeys f \<noteq> mvtFeatureKeys mf"
      from Cons.prems [unfolded validate_features_mismatch_diag [OF mf ne]]
      show False by simp
    qed
    obtain o' c' where rec: "validate_features project of_bigint input (Some mfs) (Suc i) fs = (o', c')"
      by (cases "validate_features project of_bigint input (Some mfs) (Suc i) fs")
    from Cons.prems [unfolded validate_features_match [OF mf eq] rec fst_conv snd_conv]
    have "c' = Normal u"
      by simp
    with rec Cons.IH [of "Suc i" o']
    have ih: "\<forall>j<length fs. Suc i + j < length mfs \<and> featureKeys (fs ! j) = mvtFeatureKeys (mfs ! (Suc i + j))"
      by simp
    show ?thesis
    proof (intro allI impI)
      fix j assume "j < length (f # fs)"
      then show "i + j < length mfs \<and> featureKeys ((f # fs) ! j) = mvtFeatureKeys (mfs ! (i + j))"
        using ih ix eq by (cases j) simp_all
    qed
  qed
qed


lemma validate_layers_Exit:
  "validate_layers project of_bigint input decoded mvtDecoded count names = (out, Exit c) \<Longrightarrow>
   \<exists>pre name layer mvtLayer j.
     map_of (layers decoded) name = Some layer
     \<and> map_of (layers mvtDecoded) name = Some mvtLayer
     \<and> j < length layer \<and> j < length mvtLayer
     \<and> featureKeys (layer ! j) \<noteq> mvtFeatureKeys (mvtLayer ! j)
     \<and> out = pre @ key_set_diagnostic (tile input) j
                       (featureKeys (layer ! j)) (mvtFeatureKeys (mvtLayer ! j))
     \<and> c = 1"
proof (induction names arbitrary: count out)
  case Nil
  then show ?case by simp
next
  case (Cons name names)
  show ?case
  proof (cases "map_of (layers decoded) name")
    case None
    with Cons.prems show ?thesis by simp
  next
    case (Some layer)
    note layer = this
    obtain o1 c1 where f: "validate_features project of_bigint input
        (map_of (layers mvtDecoded) name) 0 layer = (o1, c1)"
      by (cases "validate_features project of_bigint input (map_of (layers mvtDecoded) name) 0 layer")
    obtain o2 c2 where r: "validate_layers project of_bigint input decoded mvtDecoded
        (Suc count) names = (o2, c2)"
      by (cases "validate_layers project of_bigint input decoded mvtDecoded (Suc count) names")
    note prem = Cons.prems [unfolded validate_layers_step [OF layer] f r]
    show ?thesis
    proof (cases c1)
      case (Normal u)
      with prem have out: "out = o1 @ o2" and c2: "c2 = Exit c"
        by simp_all
      from Cons.IH [OF r [unfolded c2]]
      obtain pre name' layer' mvtLayer' j where
        "map_of (layers decoded) name' = Some layer'
         \<and> map_of (layers mvtDecoded) name' = Some mvtLayer'
         \<and> j < length layer' \<and> j < length mvtLayer'
         \<and> featureKeys (layer' ! j) \<noteq> mvtFeatureKeys (mvtLayer' ! j)
         \<and> o2 = pre @ key_set_diagnostic (tile input) j
                       (featureKeys (layer' ! j)) (mvtFeatureKeys (mvtLayer' ! j))
         \<and> c = 1"
        by blast
      then have "map_of (layers decoded) name' = Some layer'
         \<and> map_of (layers mvtDecoded) name' = Some mvtLayer'
         \<and> j < length layer' \<and> j < length mvtLayer'
         \<and> featureKeys (layer' ! j) \<noteq> mvtFeatureKeys (mvtLayer' ! j)
         \<and> out = (o1 @ pre) @ key_set_diagnostic (tile input) j
                       (featureKeys (layer' ! j)) (mvtFeatureKeys (mvtLayer' ! j))
         \<and> c = 1"
        using out by simp
      then show ?thesis by blast
    next
      case (Exit code)
      with prem have out: "out = o1" and c: "code = c"
        by simp_all
      from validate_features_Exit [OF f [unfolded Exit c]]
      obtain pre j mfs where
        "map_of (layers mvtDecoded) name = Some mfs \<and> j < length layer \<and> 0 + j < length mfs
         \<and> featureKeys (layer ! j) \<noteq> mvtFeatureKeys (mfs ! (0 + j))
         \<and> o1 = pre @ key_set_diagnostic (tile input) (0 + j)
                       (featureKeys (layer ! j)) (mvtFeatureKeys (mfs ! (0 + j)))
         \<and> c = 1"
        by blast
      then have "map_of (layers decoded) name = Some layer
         \<and> map_of (layers mvtDecoded) name = Some mfs
         \<and> j < length layer \<and> j < length mfs
         \<and> featureKeys (layer ! j) \<noteq> mvtFeatureKeys (mfs ! j)
         \<and> out = pre @ key_set_diagnostic (tile input) j
                       (featureKeys (layer ! j)) (mvtFeatureKeys (mfs ! j))
         \<and> c = 1"
        using out layer by simp
      then show ?thesis by blast
    next
      case Thrown
      with prem show ?thesis by simp
    qed
  qed
qed

lemma validate_layers_Normal:
  "validate_layers project of_bigint input decoded mvtDecoded count names = (out, Normal c) \<Longrightarrow>
   name \<in> set names \<Longrightarrow>
   map_of (layers decoded) name = Some layer \<Longrightarrow>
   map_of (layers mvtDecoded) name = Some mvtLayer \<Longrightarrow>
   j < length layer \<Longrightarrow>
   j < length mvtLayer \<and> featureKeys (layer ! j) = mvtFeatureKeys (mvtLayer ! j)"
proof (induction names arbitrary: count out)
  case Nil
  then show ?case by simp
next
  case (Cons n names)
  show ?case
  proof (cases "map_of (layers decoded) n")
    case None
    with Cons.prems(1) show ?thesis by simp
  next
    case (Some l)
    note l = this
    obtain o1 c1 where f: "validate_features project of_bigint input
        (map_of (layers mvtDecoded) n) 0 l = (o1, c1)"
      by (cases "validate_features project of_bigint input (map_of (layers mvtDecoded) n) 0 l")
    obtain o2 c2 where r: "validate_layers project of_bigint input decoded mvtDecoded
        (Suc count) names = (o2, c2)"
      by (cases "validate_layers project of_bigint input decoded mvtDecoded (Suc count) names")
    note prem = Cons.prems(1) [unfolded validate_layers_step [OF l] f r]
    from prem have c1: "c1 = Normal ()" and c2: "c2 = Normal c"
      by (cases c1; simp)+
    show ?thesis
    proof (cases "name = n")
      case True
      with l Cons.prems(3) have "l = layer" by simp
      with f c1 True Cons.prems(4)
      have "validate_features project of_bigint input (Some mvtLayer) 0 layer = (o1, Normal ())"
        by simp
      from validate_features_Normal [OF this] Cons.prems(5) show ?thesis
        by simp
    next
      case False
      with Cons.prems(2) have "name \<in> set names" by simp
      from Cons.IH [OF r [unfolded c2] this Cons.prems(3) Cons.prems(4) Cons.prems(5)]
      show ?thesis .
    qed
  qed
qed

lemma validate_Exit:
  assumes "validate decodeMlTile VectorTile project of_bigint input = (out, Exit c)"
  shows "\<exists>pre name layer mvtLayer j.
     map_of (layers (decodeMlTile 0 (mltTile input) (tableMeta input))) name = Some layer
     \<and> map_of (layers (VectorTile 0 (mvtTile input))) name = Some mvtLayer
     \<and> j < length layer \<and> j < length mvtLayer
     \<and> featureKeys (layer ! j) \<noteq> mvtFeatureKeys (mvtLayer ! j)
     \<and> out = pre @ key_set_diagnostic (tile input) j
                       (featureKeys (layer ! j)) (mvtFeatureKeys (mvtLayer ! j))
     \<and> c = 1"
proof -
  let ?decoded = "decodeMlTile 0 (mltTile input) (tableMeta input)"
  let ?mvt = "VectorTile 0 (mvtTile input)"
  obtain o1 c1 where l: "validate_layers project of_bigint input ?decoded ?mvt 0
      (js_sort (Object_keys (layers ?decoded))) = (o1, c1)"
    by (cases "validate_layers project of_bigint input ?decoded ?mvt 0
      (js_sort (Object_keys (layers ?decoded)))")
  from assms have "c1 = Exit c \<and> o1 = out"
    unfolding validate_def Let_def l by (cases c1) simp_all
  with l have "validate_layers project of_bigint input ?decoded ?mvt 0
      (js_sort (Object_keys (layers ?decoded))) = (out, Exit c)"
    by simp
  then show ?thesis
    by (rule validate_layers_Exit)
qed

lemma validate_not_Normal:
  assumes "map_of (layers (decodeMlTile 0 (mltTile input) (tableMeta input))) name = Some layer"
    and "map_of (layers (VectorTile 0 (mvtTile input))) name = Some mvtLayer"
    and "j < length layer"
    and "featureKeys (layer ! j) \<noteq> mvtFeatureKeys (mvtLayer ! j)"
  shows "snd (validate decodeMlTile VectorTile project of_bigint input) \<noteq> Normal ()"
proof
  let ?decoded = "decodeMlTile 0 (mltTile input) (tableMeta input)"
  let ?mvt = "VectorTile 0 (mvtTile input)"
  assume n: "snd (validate decodeMlTile VectorTile project of_bigint input) = Normal ()"
  obtain o1 c1 where l: "validate_layers project of_bigint input ?decoded ?mvt 0
      (js_sort (Object_keys (layers ?decoded))) = (o1, c1)"
    by (cases "validate_layers project of_bigint input ?decoded ?mvt 0
      (js_sort (Object_keys (layers ?decoded)))")
  from n obtain k where "c1 = Normal k"
    unfolding validate_def Let_def l by (cases c1) simp_all
  with l have ok: "validate_layers project of_bigint input ?decoded ?mvt 0
      (js_sort (Object_keys (layers ?decoded))) = (o1, Normal k)"
    by simp
  have "name \<in> set (js_sort (Object_keys (layers ?decoded)))"
    using assms(1) by (auto simp: Object_keys_def dest: map_of_SomeD intro: rev_image_eqI)
  from validate_layers_Normal [OF ok this assms(1) assms(2) assms(3)] assms(4)
  show False by simp
qed


lemma not_benchmark_line [simp]:
  "\<not> is_benchmark_line (Stderr s)"
  "\<not> is_benchmark_line (Stdout (JSON_stringify ks))"
  "\<not> is_benchmark_line (Stdout ''  vs'')"
  "\<not> is_benchmark_line (Stdout (''Validating result for '' @ t))"
  "\<not> is_benchmark_line (Stdout (passed_prefix @ t))"
  by (simp_all add: is_benchmark_line_def JSON_stringify_def passed_prefix_def)

lemma not_benchmark_line_hd [simp]:
  "c \<noteq> CHR ''R'' \<Longrightarrow> \<not> is_benchmark_line (Stdout (c # s))"
  by (simp add: is_benchmark_line_def)

lemma console_assert_lines [simp]:
  "list_all (\<lambda>l. \<not> is_benchmark_line l) (console_assert v message)"
  by (simp add: console_assert_def)

lemma key_set_diagnostic_lines [simp]:
  "list_all (\<lambda>l. \<not> is_benchmark_line l) (key_set_diagnostic t i ks mks)"
  by (simp add: key_set_diagnostic_def)

lemma validate_features_lines:
  "list_all (\<lambda>l. \<not> is_benchmark_line l)
     (fst (validate_features project of_bigint input mvtLayer i fs))"
proof (induction fs arbitrary: i)
  case Nil
  then show ?case by simp
next
  case (Cons f fs)
  show ?case
  proof (cases mvtLayer)
    case None
    then show ?thesis by simp
  next
    case (Some mfs)
    note mfs = this
    show ?thesis
    proof (cases "js_index mfs i")
      case None
      with mfs show ?thesis by simp
    next
      case (Some mf)
      show ?thesis
      proof (cases "featureKeys f = mvtFeatureKeys mf")
        case True
        show ?thesis
          unfolding mfs validate_features_match [OF Some True] fst_conv
          using Cons.IH [of "Suc i"] mfs by simp
      next
        case False
        show ?thesis
          unfolding mfs validate_features_mismatch_diag [OF Some False] fst_conv
          by simp
      qed
    qed
  qed
qed

lemma validate_layers_lines:
  "list_all (\<lambda>l. \<not> is_benchmark_line l)
     (fst (validate_layers project of_bigint input decoded mvtDecoded count names))"
proof (induction names arbitrary: count)
  case Nil
  then show ?case by simp
next
  case (Cons name names)
  show ?case
  proof (cases "map_of (layers decoded) name")
    case None
    then show ?thesis by simp
  next
    case (Some layer)
    obtain o1 c1 where f: "validate_features project of_bigint input
        (map_of (layers mvtDecoded) name) 0 layer = (o1, c1)"
      by (cases "validate_features project of_bigint input (map_of (layers mvtDecoded) name) 0 layer")
    have o1: "list_all (\<lambda>l. \<not> is_benchmark_line l) o1"
      using validate_features_lines [of project of_bigint input "map_of (layers mvtDecoded) name" 0 layer]
      unfolding f by simp
    show ?thesis
      unfolding validate_layers_step [OF Some] f
      using o1 Cons.IH [of "Suc count"] by (cases c1) simp_all
  qed
qed

lemma validate_lines:
  "list_all (\<lambda>l. \<not> is_benchmark_line l)
     (fst (validate decodeMlTile VectorTile project of_bigint input))"
proof -
  let ?decoded = "decodeMlTile 0 (mltTile input) (tableMeta input)"
  let ?mvt = "VectorTile 0 (mvtTile input)"
  obtain o1 c1 where l: "validate_layers project of_bigint input ?decoded ?mvt 0
      (js_sort (Object_keys (layers ?decoded))) = (o1, c1)"
    by (cases "validate_layers project of_bigint input ?decoded ?mvt 0
      (js_sort (Object_keys (layers ?decoded)))")
  have o1: "list_all (\<lambda>l. \<not> is_benchmark_line l) o1"
    using validate_layers_lines [of project of_bigint input ?decoded ?mvt 0
        "js_sort (Object_keys (layers ?decoded))"]
    unfolding l by simp
  show ?thesis
    unfolding validate_def Let_def l using o1 by (cases c1) simp_all
qed

lemma validate_all_lines:
  assumes "\<And>p. list_all (\<lambda>l. \<not> is_benchmark_line l) (fst (validate_one p))"
  shows "list_all (\<lambda>l. \<not> is_benchmark_line l) (fst (validate_all validate_one inputs))"
proof (induction inputs)
  case Nil
  then show ?case by simp
next
  case (Cons input inputs)
  obtain o1 c1 where v: "validate_one input = (o1, c1)"
    by (cases "validate_one input")
  obtain o2 c2 where r: "validate_all validate_one inputs = (o2, c2)"
    by (cases "validate_all validate_one inputs")
  have "list_all (\<lambda>l. \<not> is_benchmark_line l) o1"
    using assms [of input] unfolding v by simp
  moreover have "list_all (\<lambda>l. \<not> is_benchmark_line l) o2"
    using Cons.IH unfolding r by simp
  ultimately show ?case
    by (cases c1) (simp_all add: v r)
qed

lemma validate_all_Exit:
  assumes "\<forall>p\<in>set passing. snd (validate_one p) = Normal ()"
    and "validate_one input = (out, Exit c)"
  shows "\<exists>pre. validate_all validate_one (passing @ input # later) = (pre @ out, Exit c)"
  using assms(1)
proof (induction passing)
  case Nil
  have "validate_all validate_one (input # later) =
      ([Stdout (''Validating result for '' @ tile input)] @ out, Exit c)"
    using assms(2) by simp
  then show ?case by simp
next
  case (Cons p passing)
  then obtain pre where pre: "validate_all validate_one (passing @ input # later) = (pre @ out, Exit c)"
    by auto
  obtain o1 where p: "validate_one p = (o1, Normal ())"
    using Cons.prems by (cases "validate_one p") simp
  have "validate_all validate_one ((p # passing) @ input # later) =
      (([Stdout (''Validating result for '' @ tile p)] @ o1 @
        [Stdout (passed_prefix @ tile p)] @ pre) @ out, Exit c)"
    by (simp add: p pre)
  then show ?case by blast
qed

lemma load_all_output: "load_all readFileSync fromBinary Number tiles = (lo, c) \<Longrightarrow> lo = []"
proof (induction tiles arbitrary: lo c)
  case Nil
  then show ?case by simp
next
  case (Cons t ts)
  show ?case
  proof (cases "load readFileSync fromBinary Number t")
    case (Inl e)
    with Cons.prems show ?thesis by simp
  next
    case (Inr input)
    obtain o2 c2 where r: "load_all readFileSync fromBinary Number ts = (o2, c2)"
      by (cases "load_all readFileSync fromBinary Number ts")
    from Cons.IH [OF r] have "o2 = []" .
    with Cons.prems Inr r show ?thesis
      by (cases c2) simp_all
  qed
qed

lemma runSuites_validation_Exit:
  assumes "willValidate flags"
    and "load_all readFileSync fromBinary Number tiles = (lo, Normal inputs)"
    and "validate_all (validate decodeMlTile VectorTile project of_bigint) inputs = (out, Exit c)"
  shows "runSuites flags readFileSync fromBinary Number reps cycle decodeMlTile VectorTile project
     of_bigint tiles = (out, Exit c)"
proof -
  from load_all_output [OF assms(2)] have "lo = []" .
  with assms show ?thesis
    by (simp add: runSuites_def bind_effect_def)
qed


lemma ToString_nat_small:
  "ToString_nat 0 = ''0''"
  "ToString_nat (Suc 0) = ''1''"
  "ToString_nat (Suc (Suc 0)) = ''2''"
  "ToString_nat (Suc (Suc (Suc 0))) = ''3''"
  by code_simp+

lemma validate_four_building:
  "validate four_building_mlt four_building_mvt_omitting pair_project Num bing_input =
     ([Stderr ''Assertion failed: Feature keys mismatch for bing/4-8-5'',
       Stderr ''Validation failed for bing/4-8-5 3'',
       Stdout (JSON_stringify [''class'', ''name'']),
       Stdout ''  vs'',
       Stdout (JSON_stringify [''class''])],
      Exit 1)"
proof -
  have ne: "JSON_stringify [''class'', ''name''] \<noteq> JSON_stringify [''class'']"
    using JSON_stringify_inj by fastforce
  show ?thesis
    by (simp add: validate_def four_building_mlt_def four_building_mvt_omitting_def mlt_feature_def
      mvt_feature_def pair_project_def bing_input_def Object_keys_def js_sort_eval featureKeys_def
      mvtFeatureKeys_def toGeoJSON_def console_assert_def ToString_nat_small ne)
qed

text \<open>
  C4, as the code has it. With validation requested, when the tiles before this one
  validate, some indexed feature pair of this tile has different key lists (sorted, the
  \<open>id\<close> workaround applied) and validation does not throw first, the run prints the
  diagnostic of a feature pair whose key lists differ: a stderr line with the tile and the
  feature index, then the two serialised key lists; it ends with exit code 1, and no line
  of its output announces a benchmark. The diagnostic names the tile and the index, not the
  layer.
\<close>

theorem key_set_mismatch_exits_before_benchmarks:
  assumes "willValidate flags"
    and "load_all readFileSync fromBinary Number tiles = (lo, Normal (passing @ input # later))"
    and "\<forall>p\<in>set passing. snd (validate decodeMlTile VectorTile project of_bigint p) = Normal ()"
    and "map_of (layers (decodeMlTile 0 (mltTile input) (tableMeta input))) name = Some layer"
    and "map_of (layers (VectorTile 0 (mvtTile input))) name = Some mvtLayer"
    and "j < length layer"
    and "featureKeys (layer ! j) \<noteq> mvtFeatureKeys (mvtLayer ! j)"
    and "snd (validate decodeMlTile VectorTile project of_bigint input) \<noteq> Thrown"
  shows "\<exists>pre name' layer' mvtLayer' j'.
     map_of (layers (decodeMlTile 0 (mltTile input) (tableMeta input))) name' = Some layer'
     \<and> map_of (layers (VectorTile 0 (mvtTile input))) name' = Some mvtLayer'
     \<and> j' < length layer' \<and> j' < length mvtLayer'
     \<and> featureKeys (layer' ! j') \<noteq> mvtFeatureKeys (mvtLayer' ! j')
     \<and> runSuites flags readFileSync fromBinary Number reps cycle decodeMlTile VectorTile project
          of_bigint tiles =
         (pre @ key_set_diagnostic (tile input) j'
                  (featureKeys (layer' ! j')) (mvtFeatureKeys (mvtLayer' ! j')),
          Exit 1)
     \<and> no_benchmark_started
          (pre @ key_set_diagnostic (tile input) j'
                   (featureKeys (layer' ! j')) (mvtFeatureKeys (mvtLayer' ! j')))"
proof -
  let ?v = "validate decodeMlTile VectorTile project of_bigint"
  obtain out c where v: "?v input = (out, c)"
    by (cases "?v input")
  have "snd (?v input) \<noteq> Normal ()"
    using assms(4) assms(5) assms(6) assms(7) by (rule validate_not_Normal)
  with assms(8) v obtain code where c: "c = Exit code"
    by (cases c) simp_all
  from validate_Exit [OF v [unfolded c]]
  obtain pre name' layer' mvtLayer' j' where shape:
    "map_of (layers (decodeMlTile 0 (mltTile input) (tableMeta input))) name' = Some layer'"
    "map_of (layers (VectorTile 0 (mvtTile input))) name' = Some mvtLayer'"
    "j' < length layer'" "j' < length mvtLayer'"
    "featureKeys (layer' ! j') \<noteq> mvtFeatureKeys (mvtLayer' ! j')"
    "out = pre @ key_set_diagnostic (tile input) j'
                   (featureKeys (layer' ! j')) (mvtFeatureKeys (mvtLayer' ! j'))"
    "code = 1"
    by blast
  from validate_all_Exit [OF assms(3) v [unfolded c], of later]
  obtain pre' where all: "validate_all ?v (passing @ input # later) = (pre' @ out, Exit code)"
    by blast
  have run: "runSuites flags readFileSync fromBinary Number reps cycle decodeMlTile VectorTile project
          of_bigint tiles = (pre' @ out, Exit code)"
    using assms(1) assms(2) all by (rule runSuites_validation_Exit)
  have "list_all (\<lambda>l. \<not> is_benchmark_line l) (fst (validate_all ?v (passing @ input # later)))"
    by (rule validate_all_lines) (rule validate_lines)
  then have quiet: "no_benchmark_started (pre' @ out)"
    unfolding all no_benchmark_started_def by simp
  have "map_of (layers (decodeMlTile 0 (mltTile input) (tableMeta input))) name' = Some layer'
     \<and> map_of (layers (VectorTile 0 (mvtTile input))) name' = Some mvtLayer'
     \<and> j' < length layer' \<and> j' < length mvtLayer'
     \<and> featureKeys (layer' ! j') \<noteq> mvtFeatureKeys (mvtLayer' ! j')
     \<and> runSuites flags readFileSync fromBinary Number reps cycle decodeMlTile VectorTile project
          of_bigint tiles =
         ((pre' @ pre) @ key_set_diagnostic (tile input) j'
                  (featureKeys (layer' ! j')) (mvtFeatureKeys (mvtLayer' ! j')),
          Exit 1)
     \<and> no_benchmark_started
          ((pre' @ pre) @ key_set_diagnostic (tile input) j'
                   (featureKeys (layer' ! j')) (mvtFeatureKeys (mvtLayer' ! j')))"
    using shape run quiet by simp
  then show ?thesis by blast
qed


theorem key_set_mismatch_exits_before_benchmarks_witness:
  "snd (runSuites validate_and_mlt every_file unit_metadata decimal_Number once name_only
          four_building_mlt four_building_mvt_omitting pair_project Num [''bing/4-8-5''])
   = Exit 1"
proof -
  let ?layer = "[mlt_feature [''class'', ''name''], mlt_feature [''class'', ''name''],
         mlt_feature [''class'', ''name''], mlt_feature [''class'', ''name'']]"
  let ?mvtLayer = "[mvt_feature ''Point'' [''class'', ''name''], mvt_feature ''Point'' [''class'', ''name''],
         mvt_feature ''Point'' [''class'', ''name''], mvt_feature ''Point'' [''class'']]"
  have 1: "willValidate validate_and_mlt"
    by (simp add: validate_and_mlt_def)
  have 2: "load_all every_file unit_metadata decimal_Number [''bing/4-8-5''] =
      ([], Normal ([] @ bing_input # []))"
    by (simp add: load_bing)
  have 3: "\<forall>p\<in>set []. snd (validate four_building_mlt four_building_mvt_omitting pair_project Num p)
      = Normal ()"
    by simp
  have 4: "map_of (layers (four_building_mlt 0 (mltTile bing_input) (tableMeta bing_input)))
      ''building'' = Some ?layer"
    by (simp add: four_building_mlt_def)
  have 5: "map_of (layers (four_building_mvt_omitting 0 (mvtTile bing_input))) ''building''
      = Some ?mvtLayer"
    by (simp add: four_building_mvt_omitting_def)
  have 6: "3 < length ?layer"
    by simp
  have 7: "featureKeys (?layer ! 3) \<noteq> mvtFeatureKeys (?mvtLayer ! 3)"
    by (simp add: featureKeys_def mvtFeatureKeys_def mlt_feature_def mvt_feature_def Object_keys_def js_sort_eval)
  have 8: "snd (validate four_building_mlt four_building_mvt_omitting pair_project Num bing_input)
      \<noteq> Thrown"
    by (simp add: validate_four_building)
  from key_set_mismatch_exits_before_benchmarks [OF 1 2 3 4 5 6 7 8, of once name_only]
  show ?thesis by auto
qed

text \<open>
  C4, as stated, fails: in the tile whose layer \<open>building\<close> lacks a key on the MVT side at
  feature index 3, validation prints the tile and the index 3 and exits with code 1, and no
  line of its output contains the layer name.
\<close>

theorem diagnostic_names_layer_counterexample:
  "validate four_building_mlt four_building_mvt_omitting pair_project Num bing_input =
     ([Stderr ''Assertion failed: Feature keys mismatch for bing/4-8-5'',
       Stderr ''Validation failed for bing/4-8-5 3'',
       Stdout (JSON_stringify [''class'', ''name'']),
       Stdout ''  vs'',
       Stdout (JSON_stringify [''class''])],
      Exit 1)
   \<and> \<not> names_in_output ''building''
        (fst (validate four_building_mlt four_building_mvt_omitting pair_project Num bing_input))"
  by (simp add: validate_four_building names_in_output_def line_text_def JSON_stringify_def
      json_quote_def json_escape_def)

end
